theory Spec2Isabelle
  imports Complex_Main "HOL-Library.Product_Lexorder" "HOL-Library.AList" "HOL-Library.Sublist"
begin

section \<open>Data delivered by the parser\<close>

text \<open>
  The scripts read a parse response: a list of chunks and a dictionary of grounding
  records keyed by an identifier. A Python dictionary iterates in insertion order, so
  the dictionary is an association list. The coordinates of a box are Python floats:
  each is the real number that the float stands for. An attribute that may be absent
  (\<^verbatim>\<open>hasattr(g, 'position')\<close>) is an option.
\<close>

record bounding_box =
  box_left :: real
  box_top :: real
  box_right :: real
  box_bottom :: real

record position =
  chunk_id :: string
  row :: int
  col :: int
  rowspan :: int
  colspan :: int

record grounding =
  gtype :: string
  page :: int
  box :: bounding_box
  position :: "position option"

record chunk =
  ctype :: string
  cid :: string
  markdown :: string
  cgrounding :: grounding

record response =
  chunks :: "chunk list"
  groundings :: "(string \<times> grounding) list"

section \<open>Arithmetic of Python floats\<close>

text \<open>
  A Python float is an IEEE 754 double. A coordinate is a finite double, and it is
  modelled as the real number it stands for. The result of an addition, a subtraction
  or a multiplication is the exact result rounded to the nearest double, to the one
  with the even significand when two are equally near; a literal such as
  \<^verbatim>\<open>0.01\<close> is the double nearest to the decimal. A result too large for a double
  (an infinity in Python) is beyond what coordinates between 0 and 1 can reach, and the
  rounding below goes on with larger exponents there.
\<close>

text \<open>The nearest integer, the even one at a tie.\<close>

definition round_even :: "real \<Rightarrow> int" where
  "round_even x =
     (if x - of_int \<lfloor>x\<rfloor> < 1 / 2 then \<lfloor>x\<rfloor>
      else if 1 / 2 < x - of_int \<lfloor>x\<rfloor> then \<lfloor>x\<rfloor> + 1
      else if even \<lfloor>x\<rfloor> then \<lfloor>x\<rfloor> else \<lfloor>x\<rfloor> + 1)"

text \<open>
  A double has a significand of 53 bits. A magnitude below \<open>2 ^ 52\<close> is doubled until
  it lies in the range of the 53-bit integers, rounded there and halved back; after
  1074 doublings the spacing is that of the subnormal numbers, \<open>2 ^ - 1074\<close>, and the
  doubling stops. A magnitude from \<open>2 ^ 53\<close> on is halved instead, up to the largest
  exponent of a double.
\<close>

fun scale_up :: "nat \<Rightarrow> real \<Rightarrow> real" where
  "scale_up n x =
     (if n = 0 \<or> 2 ^ 52 \<le> x then of_int (round_even x) else scale_up (n - 1) (2 * x) / 2)"

fun scale_down :: "nat \<Rightarrow> real \<Rightarrow> real" where
  "scale_down n x =
     (if n = 0 \<or> x < 2 ^ 53 then of_int (round_even x) else 2 * scale_down (n - 1) (x / 2))"

declare scale_up.simps [simp del] scale_down.simps [simp del]

definition round_mag :: "real \<Rightarrow> real" where
  "round_mag x = (if x < 2 ^ 53 then scale_up 1074 x else scale_down 971 x)"

definition round_double :: "real \<Rightarrow> real" where
  "round_double x = (if x < 0 then - round_mag (- x) else round_mag x)"

definition is_double :: "real \<Rightarrow> bool" where
  "is_double x \<longleftrightarrow> round_double x = x"

definition float_sub :: "real \<Rightarrow> real \<Rightarrow> real" where
  "float_sub a b = round_double (a - b)"

definition float_add :: "real \<Rightarrow> real \<Rightarrow> real" where
  "float_add a b = round_double (a + b)"

definition float_mul :: "real \<Rightarrow> real \<Rightarrow> real" where
  "float_mul a b = round_double (a * b)"

text \<open>The literal \<^verbatim>\<open>0.01\<close> of lines 41-44.\<close>

definition tolerance :: real where
  "tolerance = round_double (1 / 100)"

section \<open>Geometry in \<^verbatim>\<open>handle_tables.py\<close>\<close>

subsection \<open>\<^verbatim>\<open>analyze_table_structure\<close>: cells of a table\<close>

text \<open>
  Lines 22-26: the groundings are sorted into tables and cells by their type tag.
\<close>

definition table_groundings :: "(string \<times> grounding) list \<Rightarrow> (string \<times> grounding) list" where
  "table_groundings gs = filter (\<lambda>(gid, g). gtype g = ''table'') gs"

definition cell_groundings :: "(string \<times> grounding) list \<Rightarrow> (string \<times> grounding) list" where
  "cell_groundings gs =
     filter (\<lambda>(gid, g). gtype g \<noteq> ''table'' \<and> gtype g = ''tableCell'') gs"

text \<open>
  Lines 41-44: the test that a cell lies within the bounds of a table. The tolerance
  is subtracted from, or added to, the bound of the table in floats, and the coordinate
  of the cell is compared with the result.
\<close>

definition within_table_bounds :: "grounding \<Rightarrow> grounding \<Rightarrow> bool" where
  "within_table_bounds table cell \<longleftrightarrow>
     box_left (box cell) \<ge> float_sub (box_left (box table)) tolerance \<and>
     box_right (box cell) \<le> float_add (box_right (box table)) tolerance \<and>
     box_top (box cell) \<ge> float_sub (box_top (box table)) tolerance \<and>
     box_bottom (box cell) \<le> float_add (box_bottom (box table)) tolerance"

text \<open>
  Lines 37-45: the cells appended to \<^verbatim>\<open>table_cells\<close> for one table. A cell on
  another page is skipped by the first test; nothing is raised.
\<close>

definition table_cells_of ::
  "grounding \<Rightarrow> (string \<times> grounding) list \<Rightarrow> (string \<times> grounding) list" where
  "table_cells_of table cells =
     filter (\<lambda>(cell_id, cell).
        (position cell \<noteq> None \<and> page cell = page table) \<and> within_table_bounds table cell)
      cells"

subsection \<open>\<^verbatim>\<open>extract_nested_tables\<close>: nesting of two tables\<close>

text \<open>
  Lines 398-401 and 405-408: one box inside another, with no tolerance and with no
  look at the page of either record.
\<close>

definition box_inside :: "bounding_box \<Rightarrow> bounding_box \<Rightarrow> bool" where
  "box_inside inner outer \<longleftrightarrow>
     box_left inner \<ge> box_left outer \<and>
     box_right inner \<le> box_right outer \<and>
     box_top inner \<ge> box_top outer \<and>
     box_bottom inner \<le> box_bottom outer"

text \<open>
  Lines 397-410, the body of the double loop for one pair \<open>i < j\<close>: the pair appended
  to \<^verbatim>\<open>nested_pairs\<close> (container first), or nothing. The second test is an
  \<^verbatim>\<open>elif\<close>, so it is only reached when the first one fails.
\<close>

definition nested_pair ::
  "string \<times> grounding \<Rightarrow> string \<times> grounding \<Rightarrow> (string \<times> string) option" where
  "nested_pair t1 t2 =
     (if box_inside (box (snd t2)) (box (snd t1)) then Some (fst t1, fst t2)
      else if box_inside (box (snd t1)) (box (snd t2)) then Some (fst t2, fst t1)
      else None)"

text \<open>Lines 392-395: all pairs \<open>i < j\<close>, \<open>i\<close> in the outer loop.\<close>

fun nested_pairs :: "(string \<times> grounding) list \<Rightarrow> (string \<times> string) list" where
  "nested_pairs [] = []"
| "nested_pairs (t1 # ts) = List.map_filter (nested_pair t1) ts @ nested_pairs ts"

definition extract_nested_tables :: "response \<Rightarrow> (string \<times> string) list" where
  "extract_nested_tables r = nested_pairs (table_groundings (groundings r))"

subsection \<open>\<^verbatim>\<open>compare_tables\<close>: area of a table\<close>

text \<open>Lines 354-355, in floats.\<close>

definition area :: "chunk \<Rightarrow> real" where
  "area table_chunk =
     float_mul
       (float_sub (box_right (box (cgrounding table_chunk))) (box_left (box (cgrounding table_chunk))))
       (float_sub (box_bottom (box (cgrounding table_chunk))) (box_top (box (cgrounding table_chunk))))"

section \<open>Python values used by the scripts\<close>

text \<open>
  The exceptions the scripts can raise. A message built by an f-string is kept as the
  values interpolated into it.
\<close>

datatype value_error =
    Max_empty
  | No_tables_found
  | Table_index_out_of_range int nat

datatype key_error =
    No_cell_at int int "(int \<times> int) list"
  | Cell_not_found string "string list"

datatype error = ValueError value_error | KeyError key_error | IndexError

text \<open>\<^verbatim>\<open>max(...)\<close> of a sequence of integers: it raises on an empty one.\<close>

fun py_max :: "int list \<Rightarrow> error + int" where
  "py_max [] = Inl (ValueError Max_empty)"
| "py_max (x # xs) = Inr (foldl max x xs)"

text \<open>
  \<^verbatim>\<open>xs[i]\<close>: an index from \<open>0\<close> counts from the front, one from \<open>-1\<close> down to
  \<open>- len(xs)\<close> from the end, and any other raises.
\<close>

definition py_index :: "'a list \<Rightarrow> int \<Rightarrow> error + 'a" where
  "py_index xs i =
     (if 0 \<le> i \<and> i < int (length xs) then Inr (xs ! nat i)
      else if i < 0 \<and> - int (length xs) \<le> i then Inr (xs ! nat (int (length xs) + i))
      else Inl IndexError)"

text \<open>\<^verbatim>\<open>enumerate(xs)\<close> and \<^verbatim>\<open>sep.join(xs)\<close>.\<close>

definition enumerate_py :: "'a list \<Rightarrow> (int \<times> 'a) list" where
  "enumerate_py xs = zip (map int [0..<length xs]) xs"

fun join :: "string \<Rightarrow> string list \<Rightarrow> string" where
  "join sep [] = []"
| "join sep [x] = x"
| "join sep (x # y # ys) = x @ sep @ join sep (y # ys)"

text \<open>\<^verbatim>\<open>str(n)\<close> of an integer, in decimal.\<close>

definition digit :: "nat \<Rightarrow> char" where
  "digit n = ''0123456789'' ! (n mod 10)"

fun str_nat :: "nat \<Rightarrow> string" where
  "str_nat n = (if n < 10 then [digit n] else str_nat (n div 10) @ [digit n])"

definition str_int :: "int \<Rightarrow> string" where
  "str_int i = (if i < 0 then CHR ''-'' # str_nat (nat (- i)) else str_nat (nat i))"

section \<open>Table dimensions and the table as a data frame\<close>

subsection \<open>\<^verbatim>\<open>analyze_table_structure\<close>: dimensions\<close>

text \<open>
  Lines 49-55. Both generators skip a cell without a position; the dimensions are only
  computed when the table has cells.
\<close>

definition span_rows :: "(string \<times> grounding) list \<Rightarrow> int list" where
  "span_rows table_cells =
     List.map_filter (\<lambda>c. map_option (\<lambda>p. row p + rowspan p - 1) (position (snd c))) table_cells"

definition span_cols :: "(string \<times> grounding) list \<Rightarrow> int list" where
  "span_cols table_cells =
     List.map_filter (\<lambda>c. map_option (\<lambda>p. col p + colspan p - 1) (position (snd c))) table_cells"

definition table_dimensions :: "(string \<times> grounding) list \<Rightarrow> error + (int \<times> int) option" where
  "table_dimensions table_cells =
     (if table_cells \<noteq> [] then
        (case py_max (span_rows table_cells) of
           Inl e \<Rightarrow> Inl e
         | Inr max_row \<Rightarrow>
             (case py_max (span_cols table_cells) of
                Inl e \<Rightarrow> Inl e
              | Inr max_col \<Rightarrow> Inr (Some (max_row, max_col))))
      else Inr None)"

text \<open>The dimensions found for one table of a document (lines 31-55).\<close>

definition analyze_table ::
  "grounding \<Rightarrow> (string \<times> grounding) list \<Rightarrow> error + (int \<times> int) option" where
  "analyze_table table gs = table_dimensions (table_cells_of table (cell_groundings gs))"

subsection \<open>\<^verbatim>\<open>extract_table_to_dataframe\<close>\<close>

definition table_chunks :: "response \<Rightarrow> chunk list" where
  "table_chunks r = filter (\<lambda>c. ctype c = ''table'') (chunks r)"

text \<open>
  Lines 77-81: the cells of one table chunk. Only the position of a cell is read
  afterwards, so it is kept beside the identifier.
\<close>

definition cells_of_chunk :: "chunk \<Rightarrow> (string \<times> grounding) list \<Rightarrow> (string \<times> position) list" where
  "cells_of_chunk table_chunk gs =
     List.map_filter (\<lambda>(gid, g).
        (case position g of
           Some pos \<Rightarrow>
             if gtype g = ''tableCell'' \<and> chunk_id pos = cid table_chunk then Some (gid, pos)
             else None
         | None \<Rightarrow> None)) gs"

text \<open>Line 100.\<close>

definition cell_content :: "position \<Rightarrow> string" where
  "cell_content pos = ''Cell R'' @ str_int (row pos) @ ''C'' @ str_int (col pos)"

text \<open>
  A data frame: the row labels and the column labels it is created with (lines 92-93)
  and its values. A position that was never assigned holds no value (None). Rows and
  columns of a position are not negative, so an assignment behind the guard of line
  105 falls on labels the frame has.
\<close>

record dataframe =
  df_index :: "int list"
  df_columns :: "int list"
  df_loc :: "int \<times> int \<Rightarrow> string option"

text \<open>Lines 105-106: one assignment, behind its guard.\<close>

definition write_cell ::
  "int \<Rightarrow> int \<Rightarrow> string \<Rightarrow> int \<Rightarrow> int \<Rightarrow> (int \<times> int \<Rightarrow> string option) \<Rightarrow> int \<times> int \<Rightarrow> string option" where
  "write_cell max_row max_col content r c loc =
     (if r \<le> max_row \<and> c \<le> max_col then loc((r, c) \<mapsto> content) else loc)"

text \<open>Lines 103-106: the two loops over the span of one cell.\<close>

definition fill_cell ::
  "int \<Rightarrow> int \<Rightarrow> position \<Rightarrow> (int \<times> int \<Rightarrow> string option) \<Rightarrow> int \<times> int \<Rightarrow> string option" where
  "fill_cell max_row max_col pos loc =
     fold (\<lambda>r. fold (\<lambda>c. write_cell max_row max_col (cell_content pos) r c)
                  [col pos..col pos + colspan pos - 1])
       [row pos..row pos + rowspan pos - 1] loc"

text \<open>Lines 96-106: the loop over the cells, in the order of the input.\<close>

definition fill_cells ::
  "int \<Rightarrow> int \<Rightarrow> (string \<times> position) list \<Rightarrow> (int \<times> int \<Rightarrow> string option) \<Rightarrow> int \<times> int \<Rightarrow> string option" where
  "fill_cells max_row max_col table_cells loc =
     fold (\<lambda>(cell_id, pos). fill_cell max_row max_col pos) table_cells loc"

text \<open>Lines 87-106: the frame built from the cells of a table.\<close>

definition build_dataframe :: "(string \<times> position) list \<Rightarrow> error + dataframe" where
  "build_dataframe table_cells =
     (case py_max (map (\<lambda>c. row (snd c)) table_cells) of
        Inl e \<Rightarrow> Inl e
      | Inr max_row \<Rightarrow>
          (case py_max (map (\<lambda>c. col (snd c)) table_cells) of
             Inl e \<Rightarrow> Inl e
           | Inr max_col \<Rightarrow>
               Inr \<lparr>df_index = [0..max_row], df_columns = [0..max_col],
                    df_loc = fill_cells max_row max_col table_cells Map.empty\<rparr>))"

text \<open>The whole function: None where the script prints a message and returns None.\<close>

definition extract_table_to_dataframe :: "response \<Rightarrow> error + dataframe option" where
  "extract_table_to_dataframe r =
     (case table_chunks r of
        [] \<Rightarrow> Inr None
      | table_chunk # _ \<Rightarrow>
          (let table_cells = cells_of_chunk table_chunk (groundings r) in
           if table_cells = [] then Inr None
           else (case build_dataframe table_cells of
                   Inl e \<Rightarrow> Inl e
                 | Inr df \<Rightarrow> Inr (Some df))))"

section \<open>\<^verbatim>\<open>reconstruct_table_markdown\<close>\<close>

text \<open>The dictionary stored for a cell (lines 191-196).\<close>

record md_cell =
  cell_gid :: string
  cell_rowspan :: int
  cell_colspan :: int
  cell_body :: string

text \<open>
  Lines 185-196: \<^verbatim>\<open>cells_data\<close>, keyed by the anchor. A later cell with the same
  anchor replaces the value and keeps the place of the key, as an assignment to a
  Python dictionary does.
\<close>

definition md_content :: "position \<Rightarrow> string" where
  "md_content pos = ''Cell'' @ str_int (row pos) @ str_int (col pos)"

definition store_cell ::
  "chunk \<Rightarrow> string \<times> grounding \<Rightarrow> ((int \<times> int) \<times> md_cell) list \<Rightarrow> ((int \<times> int) \<times> md_cell) list" where
  "store_cell table_chunk e cells_data =
     (case position (snd e) of
        Some pos \<Rightarrow>
          if gtype (snd e) = ''tableCell'' \<and> chunk_id pos = cid table_chunk
          then AList.update (row pos, col pos)
                 \<lparr>cell_gid = fst e, cell_rowspan = rowspan pos, cell_colspan = colspan pos,
                  cell_body = md_content pos\<rparr> cells_data
          else cells_data
      | None \<Rightarrow> cells_data)"

definition build_cells_data ::
  "chunk \<Rightarrow> (string \<times> grounding) list \<Rightarrow> ((int \<times> int) \<times> md_cell) list" where
  "build_cells_data table_chunk gs = fold (store_cell table_chunk) gs []"

text \<open>Lines 213-222: the text of an anchor, with the notes on its spans.\<close>

definition anchor_text :: "md_cell \<Rightarrow> string" where
  "anchor_text cell =
     cell_body cell
     @ (if cell_colspan cell > 1 then '' (spans '' @ str_int (cell_colspan cell) @ '' cols)'' else [])
     @ (if cell_rowspan cell > 1 then '' (spans '' @ str_int (cell_rowspan cell) @ '' rows)'' else [])"

text \<open>
  Lines 225-232: the search for a merged cell that covers a position, stopped at the
  first one found.
\<close>

fun covered :: "((int \<times> int) \<times> md_cell) list \<Rightarrow> int \<Rightarrow> int \<Rightarrow> bool" where
  "covered [] row' col' = False"
| "covered (((r, c), cell) # rest) row' col' =
     (if (r \<le> row' \<and> row' < r + cell_rowspan cell) \<and>
         (c \<le> col' \<and> col' < c + cell_colspan cell) \<and>
         (r \<noteq> row' \<or> c \<noteq> col')
      then True
      else covered rest row' col')"

text \<open>Lines 212-235: what is appended to \<^verbatim>\<open>row_cells\<close> for one position.\<close>

definition cell_text :: "((int \<times> int) \<times> md_cell) list \<Rightarrow> int \<Rightarrow> int \<Rightarrow> string" where
  "cell_text cells_data row' col' =
     (case map_of cells_data (row', col') of
        Some cell \<Rightarrow> anchor_text cell
      | None \<Rightarrow> if covered cells_data row' col' then ''^^'' else [])"

definition row_cells :: "((int \<times> int) \<times> md_cell) list \<Rightarrow> int \<Rightarrow> int \<Rightarrow> string list" where
  "row_cells cells_data max_col row' = map (cell_text cells_data row') [0..max_col]"

text \<open>Line 238 and line 242.\<close>

definition row_line :: "string list \<Rightarrow> string" where
  "row_line cells = ''| '' @ join '' | '' cells @ '' |''"

definition separator :: "int \<Rightarrow> string" where
  "separator max_col = ''|'' @ join ''|'' (map (\<lambda>_. '' --- '') [0..max_col]) @ ''|''"

text \<open>Lines 209-243: the lines of the table, the separator after row 0.\<close>

definition lines_of_row :: "((int \<times> int) \<times> md_cell) list \<Rightarrow> int \<Rightarrow> int \<Rightarrow> string list" where
  "lines_of_row cells_data max_col row' =
     row_line (row_cells cells_data max_col row')
     # (if row' = 0 then [separator max_col] else [])"

definition markdown_lines :: "((int \<times> int) \<times> md_cell) list \<Rightarrow> int \<Rightarrow> int \<Rightarrow> string list" where
  "markdown_lines cells_data max_row max_col =
     concat (map (lines_of_row cells_data max_col) [0..max_row])"

text \<open>Lines 198-245: from \<^verbatim>\<open>cells_data\<close> to the lines.\<close>

definition render_cells_data :: "((int \<times> int) \<times> md_cell) list \<Rightarrow> error + string list" where
  "render_cells_data cells_data =
     (case py_max (map (\<lambda>e. fst (fst e)) cells_data) of
        Inl e \<Rightarrow> Inl e
      | Inr max_row \<Rightarrow>
          (case py_max (map (\<lambda>e. snd (fst e)) cells_data) of
             Inl e \<Rightarrow> Inl e
           | Inr max_col \<Rightarrow> Inr (markdown_lines cells_data max_row max_col)))"

text \<open>The whole function: None where the script prints a message and returns None.\<close>

definition reconstruct_table_markdown :: "response \<Rightarrow> error + string option" where
  "reconstruct_table_markdown r =
     (case table_chunks r of
        [] \<Rightarrow> Inr None
      | table_chunk # _ \<Rightarrow>
          (let cells_data = build_cells_data table_chunk (groundings r) in
           if cells_data = [] then Inr None
           else (case render_cells_data cells_data of
                   Inl e \<Rightarrow> Inl e
                 | Inr ls \<Rightarrow> Inr (Some (join [CHR 0x0A] ls)))))"

section \<open>\<^verbatim>\<open>get_pdf_table_cell.py\<close>: a cell by row and column\<close>

subsection \<open>The three patterns\<close>

text \<open>
  The patterns \<^verbatim>\<open><tr[^>]*>(.*?)</tr>\<close> and \<^verbatim>\<open><td[^>]*>(.*?)</td>\<close> (with
  \<^verbatim>\<open>re.DOTALL\<close>) are written out as scanners over the text. A match at a place: the
  opening \<^verbatim>\<open><tr\<close>, then everything up to the next \<^verbatim>\<open>>\<close> (the greedy class
  cannot give back a character, since the one after a shorter run is not \<^verbatim>\<open>>\<close>),
  then the shortest text up to a closing tag. A string is the sequence of its code
  points, each below 256.
\<close>

fun split_at :: "string \<Rightarrow> string \<Rightarrow> (string \<times> string) option" where
  "split_at needle [] = (if needle = [] then Some ([], []) else None)"
| "split_at needle (c # cs) =
     (if prefix needle (c # cs) then Some ([], drop (length needle) (c # cs))
      else map_option (\<lambda>(before, after). (c # before, after)) (split_at needle cs))"

definition match_element :: "string \<Rightarrow> string \<Rightarrow> (string \<times> string) option" where
  "match_element tag s =
     (if prefix (''<'' @ tag) s then
        (case dropWhile (\<lambda>c. c \<noteq> CHR ''>'') (drop (length tag + 1) s) of
           [] \<Rightarrow> None
         | _ # body \<Rightarrow> split_at (''</'' @ tag @ ''>'') body)
      else None)"

lemma split_at_length: "split_at needle s = Some (before, after) \<Longrightarrow> length after \<le> length s"
proof (induction s arbitrary: before)
  case Nil
  then show ?case by (simp split: if_splits)
next
  case (Cons c cs)
  then show ?case by (fastforce split: if_splits)
qed

lemma match_element_shorter:
  assumes "match_element tag s = Some (g, rest)"
  shows "length rest < length s"
proof -
  obtain x body where d: "dropWhile (\<lambda>c. c \<noteq> CHR ''>'') (drop (length tag + 1) s) = x # body"
    and sp: "split_at (''</'' @ tag @ ''>'') body = Some (g, rest)"
    using assms by (auto simp: match_element_def split: if_splits list.splits)
  have "length rest \<le> length body"
    using sp by (rule split_at_length)
  also have "length body < length (dropWhile (\<lambda>c. c \<noteq> CHR ''>'') (drop (length tag + 1) s))"
    unfolding d by simp
  also have "\<dots> \<le> length (drop (length tag + 1) s)"
    by (rule length_dropWhile_le)
  also have "\<dots> \<le> length s"
    by simp
  finally show ?thesis .
qed

text \<open>
  \<^verbatim>\<open>re.findall\<close> and \<^verbatim>\<open>re.finditer\<close> with one group: the matches from left to
  right, each search starting where the last match ended, one character further where
  there was none.
\<close>

function findall_element :: "string \<Rightarrow> string \<Rightarrow> string list" where
  "findall_element tag s =
     (case s of
        [] \<Rightarrow> []
      | _ # cs \<Rightarrow>
          (case match_element tag s of
             Some (g, rest) \<Rightarrow> g # findall_element tag rest
           | None \<Rightarrow> findall_element tag cs))"
  by pat_completeness auto
termination
  by (relation "measure (\<lambda>(tag, s). length s)") (auto dest: match_element_shorter)

declare findall_element.simps [simp del]

text \<open>
  \<^verbatim>\<open>re.sub(r'<[^>]+>', '', s)\<close>: a \<^verbatim>\<open><\<close>, at least one character other than
  \<^verbatim>\<open>>\<close>, and the next \<^verbatim>\<open>>\<close> are removed.
\<close>

function strip_tags :: "string \<Rightarrow> string" where
  "strip_tags s =
     (case s of
        [] \<Rightarrow> []
      | c # cs \<Rightarrow>
          if c = CHR ''<'' \<and> takeWhile (\<lambda>c. c \<noteq> CHR ''>'') cs \<noteq> []
             \<and> dropWhile (\<lambda>c. c \<noteq> CHR ''>'') cs \<noteq> []
          then strip_tags (tl (dropWhile (\<lambda>c. c \<noteq> CHR ''>'') cs))
          else c # strip_tags cs)"
  by pat_completeness auto
termination
  by (relation "measure length") (auto simp: less_Suc_eq_le intro: le_trans [OF diff_le_self length_dropWhile_le])

declare strip_tags.simps [simp del]

text \<open>
  \<^verbatim>\<open>s.strip()\<close>: the characters that \<^verbatim>\<open>str.isspace\<close> accepts are removed at
  both ends. Among the code points below 256 these are 9 to 13, 28 to 32, 133 and 160.
\<close>

definition is_space :: "char \<Rightarrow> bool" where
  "is_space c \<longleftrightarrow>
     (let n = (of_char c :: nat)
      in (9 \<le> n \<and> n \<le> 13) \<or> (28 \<le> n \<and> n \<le> 32) \<or> n = 133 \<or> n = 160)"

definition py_strip :: "string \<Rightarrow> string" where
  "py_strip s = rev (dropWhile is_space (rev (dropWhile is_space s)))"

subsection \<open>The grid and the lookup\<close>

text \<open>Lines 27-33: the dictionary \<^verbatim>\<open>grid\<close>, keyed by the two counters.\<close>

definition put_row ::
  "int \<times> string \<Rightarrow> ((int \<times> int) \<times> string) list \<Rightarrow> ((int \<times> int) \<times> string) list" where
  "put_row e grid =
     fold (\<lambda>(c, m). AList.update (fst e, c) (py_strip (strip_tags m)))
       (enumerate_py (findall_element ''td'' (snd e))) grid"

definition parse_grid :: "string \<Rightarrow> ((int \<times> int) \<times> string) list" where
  "parse_grid md = fold put_row (enumerate_py (findall_element ''tr'' md)) []"

text \<open>Lines 19-38.\<close>

definition get_pdf_cell :: "response \<Rightarrow> int \<Rightarrow> int \<Rightarrow> int \<Rightarrow> error + string" where
  "get_pdf_cell r row' col' table_index =
     (let tables = table_chunks r in
      if tables = [] then Inl (ValueError No_tables_found)
      else if table_index \<ge> int (length tables)
      then Inl (ValueError (Table_index_out_of_range table_index (length tables)))
      else
        (case py_index tables table_index of
           Inl e \<Rightarrow> Inl e
         | Inr table \<Rightarrow>
             (let grid = parse_grid (markdown table) in
              (case map_of grid (row', col') of
                 None \<Rightarrow> Inl (KeyError (No_cell_at row' col' (sort (map fst grid))))
               | Some v \<Rightarrow> Inr v))))"

section \<open>\<^verbatim>\<open>get_spreadsheet_cell.py\<close>: a cell by its identifier\<close>

text \<open>
  The two patterns of this script look for an \<^verbatim>\<open>id\<close> attribute at a word boundary
  inside a \<^verbatim>\<open><td\<close> tag. What they find in a text is taken as given: \<open>cells_in\<close> gives
  the pairs of groups (identifier, inner text) of the pattern of lines 26-30, and
  \<open>ids_in\<close> the identifiers of the pattern of line 38, both in the order of the text.
\<close>

text \<open>Lines 25-31: the dictionary \<^verbatim>\<open>cell_text\<close> of one table.\<close>

definition cell_text_of :: "(string \<Rightarrow> (string \<times> string) list) \<Rightarrow> chunk \<Rightarrow> (string \<times> string) list" where
  "cell_text_of cells_in table =
     fold (\<lambda>(i, inner). AList.update i (py_strip (strip_tags inner))) (cells_in (markdown table)) []"

text \<open>Lines 24-34: the first table that knows the identifier answers.\<close>

fun search_tables ::
  "(string \<Rightarrow> (string \<times> string) list) \<Rightarrow> chunk list \<Rightarrow> string \<Rightarrow> string option" where
  "search_tables cells_in [] cell_id = None"
| "search_tables cells_in (table # tables) cell_id =
     (case map_of (cell_text_of cells_in table) cell_id of
        Some v \<Rightarrow> Some v
      | None \<Rightarrow> search_tables cells_in tables cell_id)"

text \<open>Lines 36-39.\<close>

definition available_ids :: "(string \<Rightarrow> string list) \<Rightarrow> chunk list \<Rightarrow> string list" where
  "available_ids ids_in tables = concat (map (\<lambda>table. ids_in (markdown table)) tables)"

text \<open>Lines 19-40; \<^verbatim>\<open>available[:10]\<close> is \<open>take 10\<close>.\<close>

definition get_spreadsheet_cell ::
  "(string \<Rightarrow> (string \<times> string) list) \<Rightarrow> (string \<Rightarrow> string list) \<Rightarrow> response \<Rightarrow> string
     \<Rightarrow> error + string" where
  "get_spreadsheet_cell cells_in ids_in r cell_id =
     (let tables = table_chunks r in
      if tables = [] then Inl (ValueError No_tables_found)
      else
        (case search_tables cells_in tables cell_id of
           Some v \<Rightarrow> Inr v
         | None \<Rightarrow>
             Inl (KeyError (Cell_not_found cell_id (take 10 (available_ids ids_in tables))))))"

section \<open>Notions of the specification\<close>

text \<open>
  The positions a cell occupies, as the specification defines them: every
  \<open>(row + i, col + j)\<close> with \<open>i < rowspan\<close> and \<open>j < colspan\<close>. Two cells overlap
  when their row ranges and their column ranges both meet.
\<close>

definition occupies :: "position \<Rightarrow> int \<times> int \<Rightarrow> bool" where
  "occupies pos rc \<longleftrightarrow>
     (row pos \<le> fst rc \<and> fst rc < row pos + rowspan pos) \<and>
     (col pos \<le> snd rc \<and> snd rc < col pos + colspan pos)"

definition overlap :: "position \<Rightarrow> position \<Rightarrow> bool" where
  "overlap p q \<longleftrightarrow>
     max (row p) (row q) < min (row p + rowspan p) (row q + rowspan q) \<and>
     max (col p) (col q) < min (col p + colspan p) (col q + colspan q)"

fun non_overlapping :: "(string \<times> position) list \<Rightarrow> bool" where
  "non_overlapping [] = True"
| "non_overlapping (c # cs) = (list_all (\<lambda>d. \<not> overlap (snd c) (snd d)) cs \<and> non_overlapping cs)"

section \<open>Rounding to a double is monotone\<close>

lemma round_even_bounds: "\<lfloor>x\<rfloor> \<le> round_even x \<and> round_even x \<le> \<lfloor>x\<rfloor> + 1"
  by (simp add: round_even_def)

lemma round_even_mono:
  assumes "a \<le> b"
  shows "round_even a \<le> round_even b"
proof (cases "\<lfloor>a\<rfloor> = \<lfloor>b\<rfloor>")
  case True
  then have "a - of_int \<lfloor>a\<rfloor> \<le> b - of_int \<lfloor>b\<rfloor>"
    using assms by simp
  then show ?thesis
    using True by (auto simp: round_even_def)
next
  case False
  then have "\<lfloor>a\<rfloor> + 1 \<le> \<lfloor>b\<rfloor>"
    using floor_mono [OF assms] by linarith
  then show ?thesis
    using round_even_bounds [of a] round_even_bounds [of b] by linarith
qed

lemma round_even_numeral: "round_even (numeral w) = numeral w"
  by (simp add: round_even_def)

lemma round_even_le_numeral: "x \<le> numeral w \<Longrightarrow> round_even x \<le> numeral w"
  using round_even_mono [of x "numeral w"] by (simp add: round_even_numeral)

lemma round_even_lt_numeral: "x < numeral w \<Longrightarrow> round_even x \<le> numeral w"
  by (rule round_even_le_numeral) simp

lemma round_even_ge_numeral: "numeral w \<le> x \<Longrightarrow> numeral w \<le> round_even x"
  using round_even_mono [of "numeral w" x] by (simp add: round_even_numeral)

lemma scale_up_le: "x < 2 ^ 52 \<Longrightarrow> scale_up n x \<le> 2 ^ 52"
proof (induction n arbitrary: x)
  case 0
  then show ?case
    by (simp add: scale_up.simps round_even_lt_numeral round_even_le_numeral)
next
  case (Suc n)
  show ?case
  proof (cases "2 * x < 2 ^ 52")
    case True
    then have "scale_up n (2 * x) \<le> 2 ^ 52"
      by (rule Suc.IH)
    then show ?thesis
      using Suc.prems by (subst scale_up.simps) simp
  next
    case False
    then have "scale_up n (2 * x) = of_int (round_even (2 * x))"
      by (subst scale_up.simps) simp
    moreover have "of_int (round_even (2 * x)) \<le> (2 ^ 53 :: real)"
      using Suc.prems by (simp add: round_even_lt_numeral)
    ultimately show ?thesis
      using Suc.prems by (subst scale_up.simps) simp
  qed
qed

lemma scale_up_mono: "a \<le> b \<Longrightarrow> scale_up n a \<le> scale_up n b"
proof (induction n arbitrary: a b)
  case 0
  then show ?case
    by (simp add: scale_up.simps round_even_mono)
next
  case (Suc n)
  consider "2 ^ 52 \<le> a" | "a < 2 ^ 52" "2 ^ 52 \<le> b" | "b < 2 ^ 52"
    by linarith
  then show ?case
  proof cases
    case 1
    then show ?thesis
      using Suc.prems by (simp add: scale_up.simps [of "Suc n"] round_even_mono)
  next
    case 2
    have "scale_up (Suc n) a \<le> 2 ^ 52"
      using 2(1) by (rule scale_up_le)
    also have "\<dots> \<le> scale_up (Suc n) b"
      using 2(2) by (simp add: scale_up.simps [of "Suc n"] round_even_ge_numeral)
    finally show ?thesis .
  next
    case 3
    then have "a < 2 ^ 52"
      using Suc.prems by linarith
    moreover have "scale_up n (2 * a) \<le> scale_up n (2 * b)"
      using Suc.prems by (intro Suc.IH) simp
    ultimately show ?thesis
      using 3 by (simp add: scale_up.simps [of "Suc n"])
  qed
qed

lemma scale_down_ge: "2 ^ 53 \<le> x \<Longrightarrow> 2 ^ 53 \<le> scale_down n x"
proof (induction n arbitrary: x)
  case 0
  then show ?case
    by (simp add: scale_down.simps round_even_ge_numeral)
next
  case (Suc n)
  show ?case
  proof (cases "2 ^ 53 \<le> x / 2")
    case True
    then have "2 ^ 53 \<le> scale_down n (x / 2)"
      by (rule Suc.IH)
    then show ?thesis
      using Suc.prems by (subst scale_down.simps) simp
  next
    case False
    then have "scale_down n (x / 2) = of_int (round_even (x / 2))"
      by (subst scale_down.simps) simp
    moreover have "(2 ^ 52 :: real) \<le> of_int (round_even (x / 2))"
      using Suc.prems by (simp add: round_even_ge_numeral)
    ultimately show ?thesis
      using Suc.prems by (subst scale_down.simps) simp
  qed
qed

lemma scale_down_mono: "a \<le> b \<Longrightarrow> scale_down n a \<le> scale_down n b"
proof (induction n arbitrary: a b)
  case 0
  then show ?case
    by (simp add: scale_down.simps round_even_mono)
next
  case (Suc n)
  consider "b < 2 ^ 53" | "a < 2 ^ 53" "2 ^ 53 \<le> b" | "2 ^ 53 \<le> a"
    by linarith
  then show ?case
  proof cases
    case 1
    then show ?thesis
      using Suc.prems by (simp add: scale_down.simps [of "Suc n"] round_even_mono)
  next
    case 2
    have "scale_down (Suc n) a \<le> 2 ^ 53"
      using 2(1) by (simp add: scale_down.simps [of "Suc n"] round_even_lt_numeral round_even_le_numeral)
    also have "\<dots> \<le> scale_down (Suc n) b"
      using 2(2) by (rule scale_down_ge)
    finally show ?thesis .
  next
    case 3
    then have "2 ^ 53 \<le> b"
      using Suc.prems by linarith
    moreover have "scale_down n (a / 2) \<le> scale_down n (b / 2)"
      using Suc.prems by (intro Suc.IH) simp
    ultimately show ?thesis
      using 3 by (simp add: scale_down.simps [of "Suc n"])
  qed
qed

lemma round_mag_mono: "a \<le> b \<Longrightarrow> round_mag a \<le> round_mag b"
proof -
  assume ab: "a \<le> b"
  consider "b < 2 ^ 53" | "a < 2 ^ 53" "2 ^ 53 \<le> b" | "2 ^ 53 \<le> a"
    by linarith
  then show ?thesis
  proof cases
    case 1
    then show ?thesis
      using ab by (simp add: round_mag_def scale_up_mono)
  next
    case 2
    have "scale_up 1074 a \<le> 2 ^ 53"
    proof (cases "a < 2 ^ 52")
      case True
      then have "scale_up 1074 a \<le> 2 ^ 52"
        by (rule scale_up_le)
      then show ?thesis by simp
    next
      case False
      then show ?thesis
        using 2(1) by (simp add: scale_up.simps [of 1074] round_even_lt_numeral round_even_le_numeral)
    qed
    also have "\<dots> \<le> scale_down 971 b"
      using 2(2) by (rule scale_down_ge)
    finally show ?thesis
      using 2 by (simp add: round_mag_def)
  next
    case 3
    then show ?thesis
      using ab by (simp add: round_mag_def scale_down_mono)
  qed
qed

lemma scale_up_zero: "scale_up n 0 = 0"
  by (induction n) (simp_all add: scale_up.simps round_even_def)

lemma round_mag_nonneg: "0 \<le> x \<Longrightarrow> 0 \<le> round_mag x"
  using round_mag_mono [of 0 x] by (simp add: round_mag_def scale_up_zero)

lemma round_double_mono: "a \<le> b \<Longrightarrow> round_double a \<le> round_double b"
proof -
  assume ab: "a \<le> b"
  consider "0 \<le> a" | "a < 0" "0 \<le> b" | "b < 0"
    by linarith
  then show ?thesis
  proof cases
    case 1
    then show ?thesis
      using ab by (simp add: round_double_def round_mag_mono)
  next
    case 2
    have "- round_mag (- a) \<le> 0"
      using 2(1) round_mag_nonneg [of "- a"] by simp
    also have "\<dots> \<le> round_mag b"
      using 2(2) by (rule round_mag_nonneg)
    finally show ?thesis
      using 2 by (simp add: round_double_def)
  next
    case 3
    then have "round_mag (- b) \<le> round_mag (- a)"
      using ab by (intro round_mag_mono) simp
    then show ?thesis
      using 3 ab by (simp add: round_double_def)
  qed
qed

lemma tolerance_value: "tolerance = 5764607523034235 / 2 ^ 59"
  by (simp add: tolerance_def round_double_def round_mag_def scale_up.simps round_even_def)

lemma tolerance_nonneg: "0 \<le> tolerance"
  by (simp add: tolerance_value)

lemma round_sub_tolerance_le: "is_double x \<Longrightarrow> round_double (x - tolerance) \<le> x"
proof -
  assume d: "is_double x"
  have "round_double (x - tolerance) \<le> round_double x"
    using tolerance_nonneg by (intro round_double_mono) simp
  then show ?thesis
    using d by (simp add: is_double_def)
qed

lemma round_add_tolerance_ge: "is_double x \<Longrightarrow> x \<le> round_double (x + tolerance)"
proof -
  assume d: "is_double x"
  have "round_double x \<le> round_double (x + tolerance)"
    using tolerance_nonneg by (intro round_double_mono) simp
  then show ?thesis
    using d by (simp add: is_double_def)
qed

section \<open>Geometry\<close>

lemma within_table_bounds_refl:
  assumes "is_double (box_left (box a))" and "is_double (box_right (box a))"
    and "is_double (box_top (box a))" and "is_double (box_bottom (box a))"
  shows "within_table_bounds a a"
  using assms
  by (simp add: within_table_bounds_def float_sub_def float_add_def round_sub_tolerance_le
      round_add_tolerance_ge)

text \<open>
  C5. The containment test of \<^verbatim>\<open>analyze_table_structure\<close> holds exactly when the
  four comparisons hold, with the subtraction and the addition of the tolerance done in
  floats as the code does them; the tolerance is the one double nearest to \<open>0.01\<close>; a
  cell with a position, on the page of the table, is kept for the table exactly when
  the test holds; and the test holds between any record and itself (its coordinates
  being floats).
\<close>

theorem contains_iff_tolerance:
  assumes "is_double (box_left (box a))" and "is_double (box_right (box a))"
    and "is_double (box_top (box a))" and "is_double (box_bottom (box a))"
  shows "(within_table_bounds outer inner \<longleftrightarrow>
      box_left (box inner) \<ge> round_double (box_left (box outer) - tolerance) \<and>
      box_right (box inner) \<le> round_double (box_right (box outer) + tolerance) \<and>
      box_top (box inner) \<ge> round_double (box_top (box outer) - tolerance) \<and>
      box_bottom (box inner) \<le> round_double (box_bottom (box outer) + tolerance))
   \<and> tolerance = 5764607523034235 / 2 ^ 59
   \<and> ((cell_id, cell) \<in> set (table_cells_of table cells) \<longleftrightarrow>
        (cell_id, cell) \<in> set cells \<and> position cell \<noteq> None \<and> page cell = page table \<and>
        within_table_bounds table cell)
   \<and> within_table_bounds a a"
proof (intro conjI)
  show "within_table_bounds outer inner \<longleftrightarrow>
      box_left (box inner) \<ge> round_double (box_left (box outer) - tolerance) \<and>
      box_right (box inner) \<le> round_double (box_right (box outer) + tolerance) \<and>
      box_top (box inner) \<ge> round_double (box_top (box outer) - tolerance) \<and>
      box_bottom (box inner) \<le> round_double (box_bottom (box outer) + tolerance)"
    by (simp add: within_table_bounds_def float_sub_def float_add_def)
  show "tolerance = 5764607523034235 / 2 ^ 59"
    by (rule tolerance_value)
  show "(cell_id, cell) \<in> set (table_cells_of table cells) \<longleftrightarrow>
        (cell_id, cell) \<in> set cells \<and> position cell \<noteq> None \<and> page cell = page table \<and>
        within_table_bounds table cell"
    by (auto simp: table_cells_of_def)
  show "within_table_bounds a a"
    using assms by (rule within_table_bounds_refl)
qed

lemma dyadic_doubles:
  "is_double (1 / 8)" "is_double (1 / 4)" "is_double (1 / 2)" "is_double (3 / 4)"
  "is_double (7 / 8)"
  by (simp_all add: is_double_def round_double_def round_mag_def scale_up.simps round_even_def)

text \<open>
  Two subtractions where the rounding decides. The literals \<^verbatim>\<open>0.1\<close>, \<^verbatim>\<open>0.09\<close>
  and \<^verbatim>\<open>0.49\<close> are the doubles that the first lemma gives. The float
  \<^verbatim>\<open>0.1 - 0.01\<close> is the double above \<^verbatim>\<open>0.09\<close>, and the float \<^verbatim>\<open>0.5 - 0.01\<close>
  is the double \<^verbatim>\<open>0.49\<close>, which lies below the exact \<open>49 / 100\<close>.
\<close>

lemma float_literals:
  "round_double (1 / 10) = 3602879701896397 / 2 ^ 55"
  "round_double (9 / 100) = 3242591731706757 / 2 ^ 55"
  "round_double (49 / 100) = 2206763817411543 / 2 ^ 52"
  by (simp_all add: round_double_def round_mag_def scale_up.simps round_even_def)

lemma subtraction_is_rounded:
  "round_double (3602879701896397 / 2 ^ 55 - tolerance) = 6485183463413515 / 2 ^ 56"
  "round_double (1 / 2 - tolerance) = 2206763817411543 / 2 ^ 52"
  by (simp_all add: tolerance_value round_double_def round_mag_def scale_up.simps round_even_def)

theorem contains_iff_tolerance_witness:
  "within_table_bounds
     \<lparr>gtype = ''table'', page = 0,
      box = \<lparr>box_left = 1 / 8, box_top = 1 / 4, box_right = 7 / 8, box_bottom = 1 / 2\<rparr>,
      position = None\<rparr>
     \<lparr>gtype = ''table'', page = 0,
      box = \<lparr>box_left = 1 / 8, box_top = 1 / 4, box_right = 7 / 8, box_bottom = 1 / 2\<rparr>,
      position = None\<rparr>
   \<and> \<not> within_table_bounds
     \<lparr>gtype = ''table'', page = 0,
      box = \<lparr>box_left = 3602879701896397 / 2 ^ 55, box_top = 1 / 4, box_right = 3 / 4,
             box_bottom = 1 / 2\<rparr>,
      position = None\<rparr>
     \<lparr>gtype = ''tableCell'', page = 0,
      box = \<lparr>box_left = 3242591731706757 / 2 ^ 55, box_top = 1 / 4, box_right = 3 / 4,
             box_bottom = 1 / 2\<rparr>,
      position = None\<rparr>
   \<and> within_table_bounds
     \<lparr>gtype = ''table'', page = 0,
      box = \<lparr>box_left = 1 / 2, box_top = 1 / 4, box_right = 3 / 4, box_bottom = 3 / 4\<rparr>,
      position = None\<rparr>
     \<lparr>gtype = ''tableCell'', page = 0,
      box = \<lparr>box_left = 2206763817411543 / 2 ^ 52, box_top = 1 / 4, box_right = 3 / 4,
             box_bottom = 3 / 4\<rparr>,
      position = None\<rparr>"
proof -
  note d = dyadic_doubles
  have m: "round_double (1 / 4 - tolerance) \<le> 1 / 4" "1 / 2 \<le> round_double (1 / 2 + tolerance)"
    "3 / 4 \<le> round_double (3 / 4 + tolerance)"
    using d by (simp_all only: round_sub_tolerance_le round_add_tolerance_ge)
  have i1: "within_table_bounds
     \<lparr>gtype = ''table'', page = 0,
      box = \<lparr>box_left = 3602879701896397 / 2 ^ 55, box_top = 1 / 4, box_right = 3 / 4,
             box_bottom = 1 / 2\<rparr>,
      position = None\<rparr>
     \<lparr>gtype = ''tableCell'', page = 0,
      box = \<lparr>box_left = 3242591731706757 / 2 ^ 55, box_top = 1 / 4, box_right = 3 / 4,
             box_bottom = 1 / 2\<rparr>,
      position = None\<rparr>
     \<longleftrightarrow> (3242591731706757 / 2 ^ 55 :: real) \<ge> 6485183463413515 / 2 ^ 56"
    and a: "within_table_bounds
     \<lparr>gtype = ''table'', page = 0,
      box = \<lparr>box_left = 1 / 8, box_top = 1 / 4, box_right = 7 / 8, box_bottom = 1 / 2\<rparr>,
      position = None\<rparr>
     \<lparr>gtype = ''table'', page = 0,
      box = \<lparr>box_left = 1 / 8, box_top = 1 / 4, box_right = 7 / 8, box_bottom = 1 / 2\<rparr>,
      position = None\<rparr>"
    using contains_iff_tolerance
      [of "\<lparr>gtype = ''table'', page = 0,
          box = \<lparr>box_left = 1 / 8, box_top = 1 / 4, box_right = 7 / 8, box_bottom = 1 / 2\<rparr>,
          position = None\<rparr>"
        "\<lparr>gtype = ''table'', page = 0,
          box = \<lparr>box_left = 3602879701896397 / 2 ^ 55, box_top = 1 / 4, box_right = 3 / 4,
                 box_bottom = 1 / 2\<rparr>,
          position = None\<rparr>"
        "\<lparr>gtype = ''tableCell'', page = 0,
          box = \<lparr>box_left = 3242591731706757 / 2 ^ 55, box_top = 1 / 4, box_right = 3 / 4,
                 box_bottom = 1 / 2\<rparr>,
          position = None\<rparr>"]
      m
    by (simp_all only: d subtraction_is_rounded grounding.simps bounding_box.simps simp_thms)
  have i2: "within_table_bounds
     \<lparr>gtype = ''table'', page = 0,
      box = \<lparr>box_left = 1 / 2, box_top = 1 / 4, box_right = 3 / 4, box_bottom = 3 / 4\<rparr>,
      position = None\<rparr>
     \<lparr>gtype = ''tableCell'', page = 0,
      box = \<lparr>box_left = 2206763817411543 / 2 ^ 52, box_top = 1 / 4, box_right = 3 / 4,
             box_bottom = 3 / 4\<rparr>,
      position = None\<rparr>
     \<longleftrightarrow> (2206763817411543 / 2 ^ 52 :: real) \<ge> 2206763817411543 / 2 ^ 52"
    using contains_iff_tolerance
      [of "\<lparr>gtype = ''table'', page = 0,
          box = \<lparr>box_left = 1 / 8, box_top = 1 / 4, box_right = 7 / 8, box_bottom = 1 / 2\<rparr>,
          position = None\<rparr>"
        "\<lparr>gtype = ''table'', page = 0,
          box = \<lparr>box_left = 1 / 2, box_top = 1 / 4, box_right = 3 / 4, box_bottom = 3 / 4\<rparr>,
          position = None\<rparr>"
        "\<lparr>gtype = ''tableCell'', page = 0,
          box = \<lparr>box_left = 2206763817411543 / 2 ^ 52, box_top = 1 / 4, box_right = 3 / 4,
                 box_bottom = 3 / 4\<rparr>,
          position = None\<rparr>"]
      m
    by (simp only: d subtraction_is_rounded grounding.simps bounding_box.simps simp_thms)
  show ?thesis
    using a i1 i2 by simp
qed

lemma box_inside_refl: "box_inside b b"
  by (simp add: box_inside_def)

text \<open>
  C6, as the code has it. Two table records with equal boxes are reported as nested:
  the first test of \<^verbatim>\<open>extract_nested_tables\<close> uses non-strict comparisons, so it
  holds, and the pair names the earlier record as the container.
\<close>

theorem nested_equal_boxes_first_contains:
  "box (snd t1) = box (snd t2) \<Longrightarrow> nested_pair t1 t2 = Some (fst t1, fst t2)"
  by (simp add: nested_pair_def box_inside_refl)

theorem nested_equal_boxes_first_contains_witness:
  "nested_pair
     (''t1'', \<lparr>gtype = ''table'', page = 0,
        box = \<lparr>box_left = 0.125, box_top = 0.25, box_right = 0.875, box_bottom = 0.5\<rparr>,
        position = None\<rparr>)
     (''t2'', \<lparr>gtype = ''table'', page = 0,
        box = \<lparr>box_left = 0.125, box_top = 0.25, box_right = 0.875, box_bottom = 0.5\<rparr>,
        position = None\<rparr>)
   = Some (''t1'', ''t2'')"
  using nested_equal_boxes_first_contains
    [of "(''t1'', \<lparr>gtype = ''table'', page = 0,
        box = \<lparr>box_left = 0.125, box_top = 0.25, box_right = 0.875, box_bottom = 0.5\<rparr>,
        position = None\<rparr>)"
       "(''t2'', \<lparr>gtype = ''table'', page = 0,
        box = \<lparr>box_left = 0.125, box_top = 0.25, box_right = 0.875, box_bottom = 0.5\<rparr>,
        position = None\<rparr>)"]
  by simp

text \<open>
  The claim C6 as stated fails: the same region detected twice, under the identifiers
  \<open>t1\<close> and \<open>t2\<close>, is reported as \<open>t2\<close> nested inside \<open>t1\<close>.
\<close>

theorem nested_equal_boxes_counterexample:
  "extract_nested_tables
     \<lparr>chunks = [],
      groundings =
        [(''t1'', \<lparr>gtype = ''table'', page = 0,
            box = \<lparr>box_left = 0.125, box_top = 0.25, box_right = 0.875, box_bottom = 0.5\<rparr>,
            position = None\<rparr>),
         (''t2'', \<lparr>gtype = ''table'', page = 0,
            box = \<lparr>box_left = 0.125, box_top = 0.25, box_right = 0.875, box_bottom = 0.5\<rparr>,
            position = None\<rparr>)]\<rparr>
   = [(''t1'', ''t2'')]"
  by (simp add: extract_nested_tables_def table_groundings_def nested_pair_def box_inside_def
      List.map_filter_def)

text \<open>
  C7, as the code has it. No geometry test fails on records of different pages. The
  containment test of \<^verbatim>\<open>analyze_table_structure\<close> is only reached for a cell on
  the page of the table, and a cell on another page is left out of the table. The
  nesting test of \<^verbatim>\<open>extract_nested_tables\<close> and the area of \<^verbatim>\<open>compare_tables\<close>
  never read a page: they give what they give for records on one page.
\<close>

theorem pages_never_raise:
  assumes "page a \<noteq> page b"
  shows "(cell_id, b) \<notin> set (table_cells_of a cells)
    \<and> nested_pair (ia, a) (ib, b) = nested_pair (ia, a\<lparr>page := page b\<rparr>) (ib, b)
    \<and> area (table_chunk\<lparr>cgrounding := b\<rparr>) = area (table_chunk\<lparr>cgrounding := b\<lparr>page := page a\<rparr>\<rparr>)"
  using assms by (auto simp: table_cells_of_def nested_pair_def area_def)

theorem pages_never_raise_witness:
  "table_cells_of
      \<lparr>gtype = ''table'', page = 0,
       box = \<lparr>box_left = 0.125, box_top = 0.125, box_right = 0.875, box_bottom = 0.875\<rparr>,
       position = None\<rparr>
      [(''c1'', \<lparr>gtype = ''tableCell'', page = 1,
         box = \<lparr>box_left = 0.25, box_top = 0.25, box_right = 0.375, box_bottom = 0.375\<rparr>,
         position = Some \<lparr>chunk_id = ''t1'', row = 0, col = 0, rowspan = 1, colspan = 1\<rparr>\<rparr>)]
    = []"
proof -
  have "(''c1'', \<lparr>gtype = ''tableCell'', page = 1,
         box = \<lparr>box_left = 0.25, box_top = 0.25, box_right = 0.375, box_bottom = 0.375\<rparr>,
         position = Some \<lparr>chunk_id = ''t1'', row = 0, col = 0, rowspan = 1, colspan = 1\<rparr>\<rparr>)
     \<notin> set (table_cells_of
      \<lparr>gtype = ''table'', page = 0,
       box = \<lparr>box_left = 0.125, box_top = 0.125, box_right = 0.875, box_bottom = 0.875\<rparr>,
       position = None\<rparr>
      [(''c1'', \<lparr>gtype = ''tableCell'', page = 1,
         box = \<lparr>box_left = 0.25, box_top = 0.25, box_right = 0.375, box_bottom = 0.375\<rparr>,
         position = Some \<lparr>chunk_id = ''t1'', row = 0, col = 0, rowspan = 1, colspan = 1\<rparr>\<rparr>)])"
    using pages_never_raise
      [of "\<lparr>gtype = ''table'', page = 0,
       box = \<lparr>box_left = 0.125, box_top = 0.125, box_right = 0.875, box_bottom = 0.875\<rparr>,
       position = None\<rparr>"
        "\<lparr>gtype = ''tableCell'', page = 1,
         box = \<lparr>box_left = 0.25, box_top = 0.25, box_right = 0.375, box_bottom = 0.375\<rparr>,
         position = Some \<lparr>chunk_id = ''t1'', row = 0, col = 0, rowspan = 1, colspan = 1\<rparr>\<rparr>"
        "''c1''"]
    by simp
  then show ?thesis
    by (simp add: table_cells_of_def)
qed

text \<open>
  The claim C7 as stated fails: a table on page 0 and a table on page 1 are compared
  by their boxes, and the second is reported as nested inside the first; a cell on
  page 1 is compared with a table on page 0 and simply not kept.
\<close>

theorem cross_page_counterexample:
  "extract_nested_tables
     \<lparr>chunks = [],
      groundings =
        [(''t1'', \<lparr>gtype = ''table'', page = 0,
            box = \<lparr>box_left = 0.125, box_top = 0.125, box_right = 0.875, box_bottom = 0.875\<rparr>,
            position = None\<rparr>),
         (''t2'', \<lparr>gtype = ''table'', page = 1,
            box = \<lparr>box_left = 0.25, box_top = 0.25, box_right = 0.5, box_bottom = 0.5\<rparr>,
            position = None\<rparr>)]\<rparr>
   = [(''t1'', ''t2'')]
   \<and> table_cells_of
      \<lparr>gtype = ''table'', page = 0,
       box = \<lparr>box_left = 0.125, box_top = 0.125, box_right = 0.875, box_bottom = 0.875\<rparr>,
       position = None\<rparr>
      [(''c1'', \<lparr>gtype = ''tableCell'', page = 1,
         box = \<lparr>box_left = 0.25, box_top = 0.25, box_right = 0.375, box_bottom = 0.375\<rparr>,
         position = Some \<lparr>chunk_id = ''t1'', row = 0, col = 0, rowspan = 1, colspan = 1\<rparr>\<rparr>)]
    = []"
  by (simp add: extract_nested_tables_def table_groundings_def nested_pair_def box_inside_def
      List.map_filter_def table_cells_of_def)

section \<open>The data frame and the dimensions\<close>

lemma foldl_max_fold: "foldl max (x::int) xs = fold max xs x"
  by (induction xs arbitrary: x) (simp_all add: max.commute)

lemma py_max_Max: "xs \<noteq> [] \<Longrightarrow> py_max xs = Inr (Max (set xs))"
proof (cases xs)
  case Nil
  assume "xs \<noteq> []"
  with Nil show ?thesis by simp
next
  case (Cons x ys)
  have "foldl max x ys = Max (set (x # ys))"
    by (simp only: foldl_max_fold Max.set_eq_fold)
  with Cons show ?thesis by simp
qed

lemma overlap_iff: "overlap p q \<longleftrightarrow> (\<exists>rc. occupies p rc \<and> occupies q rc)"
proof
  assume "overlap p q"
  then have "occupies p (max (row p) (row q), max (col p) (col q))
    \<and> occupies q (max (row p) (row q), max (col p) (col q))"
    by (auto simp: overlap_def occupies_def)
  then show "\<exists>rc. occupies p rc \<and> occupies q rc" by blast
next
  assume "\<exists>rc. occupies p rc \<and> occupies q rc"
  then show "overlap p q"
    by (auto simp: overlap_def occupies_def)
qed

lemma fold_write_cols:
  "fold (\<lambda>c. write_cell mr mc content r c) cs loc (r', c') =
     (if r' = r \<and> c' \<in> set cs \<and> r \<le> mr \<and> c' \<le> mc then Some content else loc (r', c'))"
  by (induction cs arbitrary: loc) (auto simp: write_cell_def)

lemma fold_write_rows:
  "fold (\<lambda>r. fold (\<lambda>c. write_cell mr mc content r c) cs) rs loc (r', c') =
     (if r' \<in> set rs \<and> c' \<in> set cs \<and> r' \<le> mr \<and> c' \<le> mc then Some content
      else loc (r', c'))"
  by (induction rs arbitrary: loc) (auto simp: fold_write_cols)

lemma fill_cell_apply:
  "fill_cell mr mc pos loc (r, c) =
     (if occupies pos (r, c) \<and> r \<le> mr \<and> c \<le> mc then Some (cell_content pos) else loc (r, c))"
  by (auto simp: fill_cell_def fold_write_rows occupies_def)

lemma fill_cells_Nil: "fill_cells mr mc [] loc = loc"
  by (simp add: fill_cells_def)

lemma fill_cells_snoc:
  "fill_cells mr mc (cells @ [e]) loc = fill_cell mr mc (snd e) (fill_cells mr mc cells loc)"
  by (cases e) (simp add: fill_cells_def)

lemma fill_cells_unoccupied:
  "\<forall>e \<in> set cells. \<not> occupies (snd e) (r, c) \<Longrightarrow> fill_cells mr mc cells loc (r, c) = loc (r, c)"
proof (induction cells rule: rev_induct)
  case Nil
  show ?case by (simp add: fill_cells_Nil)
next
  case (snoc e cells)
  then show ?case by (simp add: fill_cells_snoc fill_cell_apply)
qed

lemma fill_cells_outside:
  "\<not> (r \<le> mr \<and> c \<le> mc) \<Longrightarrow> fill_cells mr mc cells loc (r, c) = loc (r, c)"
proof (induction cells rule: rev_induct)
  case Nil
  show ?case by (simp add: fill_cells_Nil)
next
  case (snoc e cells)
  then show ?case by (auto simp: fill_cells_snoc fill_cell_apply)
qed

lemma fill_cells_last_writer:
  assumes "\<forall>e \<in> set after. \<not> occupies (snd e) (r, c)"
    and "occupies pos (r, c)"
  shows "fill_cells mr mc (before @ (cell_id, pos) # after) loc (r, c) =
     (if r \<le> mr \<and> c \<le> mc then Some (cell_content pos) else loc (r, c))"
  using assms(1)
proof (induction after rule: rev_induct)
  case Nil
  have "fill_cells mr mc (before @ [(cell_id, pos)]) loc (r, c) =
     (if r \<le> mr \<and> c \<le> mc then Some (cell_content pos) else fill_cells mr mc before loc (r, c))"
    by (simp add: fill_cells_snoc fill_cell_apply assms(2))
  then show ?case
    by (simp add: fill_cells_outside)
next
  case (snoc e after)
  have "fill_cells mr mc ((before @ (cell_id, pos) # after) @ [e]) loc (r, c) =
      fill_cells mr mc (before @ (cell_id, pos) # after) loc (r, c)"
    using snoc.prems by (simp only: fill_cells_snoc fill_cell_apply) simp
  then show ?case
    using snoc by simp
qed

lemma build_dataframe_eq:
  assumes "table_cells \<noteq> []"
  shows "build_dataframe table_cells =
     Inr \<lparr>df_index = [0..Max ((\<lambda>e. row (snd e)) ` set table_cells)],
          df_columns = [0..Max ((\<lambda>e. col (snd e)) ` set table_cells)],
          df_loc = fill_cells (Max ((\<lambda>e. row (snd e)) ` set table_cells))
                     (Max ((\<lambda>e. col (snd e)) ` set table_cells)) table_cells Map.empty\<rparr>"
  using assms by (simp add: build_dataframe_def py_max_Max)

lemma non_overlapping_split:
  "non_overlapping (before @ e # after) \<Longrightarrow> d \<in> set after \<Longrightarrow> \<not> overlap (snd e) (snd d)"
  by (induction before) (auto simp: list_all_iff)

lemma map_filter_positions:
  "\<forall>e \<in> set cs. position (snd e) \<noteq> None \<Longrightarrow>
   List.map_filter (\<lambda>c. map_option f (position (snd c))) cs = map (\<lambda>c. f (the (position (snd c)))) cs"
  by (induction cs) auto

lemma table_cells_of_position: "e \<in> set (table_cells_of table cells) \<Longrightarrow> position (snd e) \<noteq> None"
  by (auto simp: table_cells_of_def)

lemma table_dimensions_eq:
  assumes "cs = table_cells_of table cells" and "cs \<noteq> []"
  shows "table_dimensions cs =
     Inr (Some (Max ((\<lambda>e. row (the (position (snd e))) + rowspan (the (position (snd e))) - 1) ` set cs),
                Max ((\<lambda>e. col (the (position (snd e))) + colspan (the (position (snd e))) - 1) ` set cs)))"
proof -
  have p: "\<forall>e \<in> set cs. position (snd e) \<noteq> None"
    using assms(1) table_cells_of_position by blast
  have r: "span_rows cs = map (\<lambda>e. row (the (position (snd e))) + rowspan (the (position (snd e))) - 1) cs"
    unfolding span_rows_def using p by (rule map_filter_positions)
  have c: "span_cols cs = map (\<lambda>e. col (the (position (snd e))) + colspan (the (position (snd e))) - 1) cs"
    unfolding span_cols_def using p by (rule map_filter_positions)
  show ?thesis
    using assms(2) by (simp add: table_dimensions_def r c py_max_Max)
qed

lemma render_cells_data_eq:
  assumes "cells_data \<noteq> []"
  shows "render_cells_data cells_data =
     Inr (markdown_lines cells_data (Max ((\<lambda>e. fst (fst e)) ` set cells_data))
            (Max ((\<lambda>e. snd (fst e)) ` set cells_data)))"
  using assms by (simp add: render_cells_data_def py_max_Max)

text \<open>
  C2, as the code has it. \<^verbatim>\<open>analyze_table_structure\<close> takes the dimensions of a
  table from the far end of every span. The frame of \<^verbatim>\<open>extract_table_to_dataframe\<close>
  and the table of \<^verbatim>\<open>reconstruct_table_markdown\<close> take them from the largest anchor
  row and the largest anchor column alone.
\<close>

theorem dimensions_span_or_anchor:
  assumes "cs = table_cells_of table cells" and "cs \<noteq> []"
    and "table_cells \<noteq> []" and "cells_data \<noteq> []"
  shows "table_dimensions cs =
      Inr (Some (Max ((\<lambda>e. row (the (position (snd e))) + rowspan (the (position (snd e))) - 1) ` set cs),
                 Max ((\<lambda>e. col (the (position (snd e))) + colspan (the (position (snd e))) - 1) ` set cs)))
    \<and> (\<exists>df. build_dataframe table_cells = Inr df
          \<and> df_index df = [0..Max ((\<lambda>e. row (snd e)) ` set table_cells)]
          \<and> df_columns df = [0..Max ((\<lambda>e. col (snd e)) ` set table_cells)])
    \<and> render_cells_data cells_data =
        Inr (markdown_lines cells_data (Max ((\<lambda>e. fst (fst e)) ` set cells_data))
               (Max ((\<lambda>e. snd (fst e)) ` set cells_data)))"
proof (intro conjI)
  show "table_dimensions cs =
      Inr (Some (Max ((\<lambda>e. row (the (position (snd e))) + rowspan (the (position (snd e))) - 1) ` set cs),
                 Max ((\<lambda>e. col (the (position (snd e))) + colspan (the (position (snd e))) - 1) ` set cs)))"
    using assms(1,2) by (rule table_dimensions_eq)
  show "\<exists>df. build_dataframe table_cells = Inr df
          \<and> df_index df = [0..Max ((\<lambda>e. row (snd e)) ` set table_cells)]
          \<and> df_columns df = [0..Max ((\<lambda>e. col (snd e)) ` set table_cells)]"
    using assms(3) by (simp add: build_dataframe_eq)
  show "render_cells_data cells_data =
        Inr (markdown_lines cells_data (Max ((\<lambda>e. fst (fst e)) ` set cells_data))
               (Max ((\<lambda>e. snd (fst e)) ` set cells_data)))"
    using assms(4) by (rule render_cells_data_eq)
qed

theorem dimensions_span_or_anchor_witness:
  "table_dimensions
     [(''c1'', \<lparr>gtype = ''tableCell'', page = 0,
         box = \<lparr>box_left = 0.25, box_top = 0.25, box_right = 0.375, box_bottom = 0.375\<rparr>,
         position = Some \<lparr>chunk_id = ''t1'', row = 5, col = 0, rowspan = 3, colspan = 1\<rparr>\<rparr>)]
     = Inr (Some (7, 0))
   \<and> (\<exists>df. build_dataframe
          [(''c1'', \<lparr>chunk_id = ''t1'', row = 5, col = 0, rowspan = 3, colspan = 1\<rparr>)] = Inr df
        \<and> df_index df = [0..5] \<and> df_columns df = [0..0])
   \<and> render_cells_data
        [((5, 0), \<lparr>cell_gid = ''c1'', cell_rowspan = 3, cell_colspan = 1, cell_body = ''Cell50''\<rparr>)]
      = Inr (markdown_lines
          [((5, 0), \<lparr>cell_gid = ''c1'', cell_rowspan = 3, cell_colspan = 1, cell_body = ''Cell50''\<rparr>)]
          5 0)"
proof -
  have a: "[(''c1'', \<lparr>gtype = ''tableCell'', page = 0,
         box = \<lparr>box_left = 0.25, box_top = 0.25, box_right = 0.375, box_bottom = 0.375\<rparr>,
         position = Some \<lparr>chunk_id = ''t1'', row = 5, col = 0, rowspan = 3, colspan = 1\<rparr>\<rparr>)]
    = table_cells_of
        \<lparr>gtype = ''table'', page = 0,
         box = \<lparr>box_left = 0.125, box_top = 0.125, box_right = 0.875, box_bottom = 0.875\<rparr>,
         position = None\<rparr>
        [(''c1'', \<lparr>gtype = ''tableCell'', page = 0,
         box = \<lparr>box_left = 0.25, box_top = 0.25, box_right = 0.375, box_bottom = 0.375\<rparr>,
         position = Some \<lparr>chunk_id = ''t1'', row = 5, col = 0, rowspan = 3, colspan = 1\<rparr>\<rparr>)]"
    by (simp add: table_cells_of_def within_table_bounds_def float_sub_def float_add_def
        tolerance_value round_double_def round_mag_def scale_up.simps round_even_def)
  show ?thesis
    using dimensions_span_or_anchor [OF a,
      of "[(''c1'', \<lparr>chunk_id = ''t1'', row = 5, col = 0, rowspan = 3, colspan = 1\<rparr>)]"
         "[((5, 0), \<lparr>cell_gid = ''c1'', cell_rowspan = 3, cell_colspan = 1, cell_body = ''Cell50''\<rparr>)]"]
    by simp
qed

text \<open>
  The claim C2 as stated fails for the data frame: a single cell at row 5 with a
  rowspan of 3 gives a frame whose last row is 5, not 7.
\<close>

theorem dimensions_counterexample:
  "map_sum id (map_option df_index)
     (extract_table_to_dataframe
        \<lparr>chunks = [\<lparr>ctype = ''table'', cid = ''t1'', markdown = '''',
             cgrounding = \<lparr>gtype = ''table'', page = 0,
               box = \<lparr>box_left = 0.125, box_top = 0.125, box_right = 0.875, box_bottom = 0.875\<rparr>,
               position = None\<rparr>\<rparr>],
         groundings = [(''c1'', \<lparr>gtype = ''tableCell'', page = 0,
             box = \<lparr>box_left = 0.25, box_top = 0.25, box_right = 0.375, box_bottom = 0.375\<rparr>,
             position = Some \<lparr>chunk_id = ''t1'', row = 5, col = 0, rowspan = 3, colspan = 1\<rparr>\<rparr>)]\<rparr>)
   = Inr (Some [0, 1, 2, 3, 4, 5])"
  by (simp add: extract_table_to_dataframe_def table_chunks_def cells_of_chunk_def
      build_dataframe_def upto.simps)

text \<open>
  C1, as the code has it. \<^verbatim>\<open>extract_table_to_dataframe\<close> reports nothing about
  overlapping spans, and every cell overwrites what an earlier one left. Where several
  cells occupy a position, the frame holds the content of the last of them in input
  order, if the position is within the largest anchor row and column.
\<close>

theorem overlap_last_writer_wins:
  assumes "table_cells = before @ (cell_id, pos) # after"
    and "occupies pos (r, c)"
    and "\<forall>e \<in> set after. \<not> occupies (snd e) (r, c)"
  shows "\<exists>df. build_dataframe table_cells = Inr df \<and>
     df_loc df (r, c) =
       (if r \<le> Max ((\<lambda>e. row (snd e)) ` set table_cells) \<and>
           c \<le> Max ((\<lambda>e. col (snd e)) ` set table_cells)
        then Some (cell_content pos) else None)"
proof -
  have ne: "table_cells \<noteq> []"
    using assms(1) by simp
  have "fill_cells (Max ((\<lambda>e. row (snd e)) ` set table_cells))
          (Max ((\<lambda>e. col (snd e)) ` set table_cells)) table_cells Map.empty (r, c) =
       (if r \<le> Max ((\<lambda>e. row (snd e)) ` set table_cells) \<and>
           c \<le> Max ((\<lambda>e. col (snd e)) ` set table_cells)
        then Some (cell_content pos) else None)"
    unfolding assms(1) using assms(3,2) by (simp only: fill_cells_last_writer)
  then show ?thesis
    by (simp add: build_dataframe_eq [OF ne])
qed

theorem overlap_last_writer_wins_witness:
  "\<exists>df. build_dataframe
      [(''a'', \<lparr>chunk_id = ''t1'', row = 0, col = 0, rowspan = 2, colspan = 2\<rparr>),
       (''b'', \<lparr>chunk_id = ''t1'', row = 1, col = 1, rowspan = 1, colspan = 1\<rparr>)] = Inr df \<and>
     df_loc df (1, 1) = Some ''Cell R1C1''"
  using overlap_last_writer_wins
    [of "[(''a'', \<lparr>chunk_id = ''t1'', row = 0, col = 0, rowspan = 2, colspan = 2\<rparr>),
       (''b'', \<lparr>chunk_id = ''t1'', row = 1, col = 1, rowspan = 1, colspan = 1\<rparr>)]"
      "[(''a'', \<lparr>chunk_id = ''t1'', row = 0, col = 0, rowspan = 2, colspan = 2\<rparr>)]"
      "''b''" "\<lparr>chunk_id = ''t1'', row = 1, col = 1, rowspan = 1, colspan = 1\<rparr>" "[]" 1 1]
  by (simp add: occupies_def cell_content_def str_int_def digit_def)

text \<open>
  The claim C1 as stated fails: the cells \<open>a\<close> and \<open>b\<close> both occupy position
  \<open>(1, 1)\<close>; the frame is returned with no report, and it holds at \<open>(1, 1)\<close> the
  content of \<open>b\<close>, the second writer, not that of \<open>a\<close>.
\<close>

theorem overlapping_span_counterexample:
  "occupies \<lparr>chunk_id = ''t1'', row = 0, col = 0, rowspan = 2, colspan = 2\<rparr> (1, 1)
   \<and> occupies \<lparr>chunk_id = ''t1'', row = 1, col = 1, rowspan = 1, colspan = 1\<rparr> (1, 1)
   \<and> cell_content \<lparr>chunk_id = ''t1'', row = 0, col = 0, rowspan = 2, colspan = 2\<rparr> = ''Cell R0C0''
   \<and> map_sum id (map_option (\<lambda>df. df_loc df (1, 1)))
       (extract_table_to_dataframe
          \<lparr>chunks = [\<lparr>ctype = ''table'', cid = ''t1'', markdown = '''',
               cgrounding = \<lparr>gtype = ''table'', page = 0,
                 box = \<lparr>box_left = 0.125, box_top = 0.125, box_right = 0.875, box_bottom = 0.875\<rparr>,
                 position = None\<rparr>\<rparr>],
           groundings =
             [(''a'', \<lparr>gtype = ''tableCell'', page = 0,
                 box = \<lparr>box_left = 0.125, box_top = 0.125, box_right = 0.875, box_bottom = 0.875\<rparr>,
                 position = Some \<lparr>chunk_id = ''t1'', row = 0, col = 0, rowspan = 2, colspan = 2\<rparr>\<rparr>),
              (''b'', \<lparr>gtype = ''tableCell'', page = 0,
                 box = \<lparr>box_left = 0.5, box_top = 0.5, box_right = 0.875, box_bottom = 0.875\<rparr>,
                 position = Some \<lparr>chunk_id = ''t1'', row = 1, col = 1, rowspan = 1, colspan = 1\<rparr>\<rparr>)]\<rparr>)
     = Inr (Some (Some ''Cell R1C1''))"
  by (simp add: extract_table_to_dataframe_def table_chunks_def cells_of_chunk_def
      build_dataframe_def fill_cells_def fill_cell_apply occupies_def
      cell_content_def str_int_def digit_def)

text \<open>
  C3, as the code has it. For cells that do not overlap, the frame holds at a position
  occupied by a cell the content of that cell when the position lies within the largest
  anchor row and the largest anchor column, and nothing otherwise: the guard of line
  105 drops the part of a span beyond them.
\<close>

theorem occupied_lookup_within_anchor_bounds:
  assumes "non_overlapping table_cells"
    and "(cell_id, pos) \<in> set table_cells"
    and "occupies pos (r, c)"
  shows "\<exists>df. build_dataframe table_cells = Inr df \<and>
     df_loc df (r, c) =
       (if r \<le> Max ((\<lambda>e. row (snd e)) ` set table_cells) \<and>
           c \<le> Max ((\<lambda>e. col (snd e)) ` set table_cells)
        then Some (cell_content pos) else None)"
proof -
  obtain before after where sp: "table_cells = before @ (cell_id, pos) # after"
    using assms(2) by (auto dest: split_list)
  have ne: "table_cells \<noteq> []"
    using sp by simp
  have "\<forall>e \<in> set after. \<not> occupies (snd e) (r, c)"
  proof
    fix e assume "e \<in> set after"
    then have "\<not> overlap pos (snd e)"
      using non_overlapping_split [of before "(cell_id, pos)" after e] assms(1) sp by simp
    then show "\<not> occupies (snd e) (r, c)"
      using assms(3) overlap_iff by blast
  qed
  then have "fill_cells (Max ((\<lambda>e. row (snd e)) ` set table_cells))
          (Max ((\<lambda>e. col (snd e)) ` set table_cells)) table_cells Map.empty (r, c) =
       (if r \<le> Max ((\<lambda>e. row (snd e)) ` set table_cells) \<and>
           c \<le> Max ((\<lambda>e. col (snd e)) ` set table_cells)
        then Some (cell_content pos) else None)"
    unfolding sp using assms(3) by (simp only: fill_cells_last_writer)
  then show ?thesis
    by (simp add: build_dataframe_eq [OF ne])
qed

theorem occupied_lookup_within_anchor_bounds_witness:
  "\<exists>df. build_dataframe
      [(''a'', \<lparr>chunk_id = ''t1'', row = 0, col = 0, rowspan = 2, colspan = 1\<rparr>),
       (''b'', \<lparr>chunk_id = ''t1'', row = 0, col = 1, rowspan = 1, colspan = 1\<rparr>),
       (''c'', \<lparr>chunk_id = ''t1'', row = 1, col = 1, rowspan = 1, colspan = 1\<rparr>)] = Inr df \<and>
     df_loc df (1, 0) = Some ''Cell R0C0''"
  using occupied_lookup_within_anchor_bounds
    [of "[(''a'', \<lparr>chunk_id = ''t1'', row = 0, col = 0, rowspan = 2, colspan = 1\<rparr>),
       (''b'', \<lparr>chunk_id = ''t1'', row = 0, col = 1, rowspan = 1, colspan = 1\<rparr>),
       (''c'', \<lparr>chunk_id = ''t1'', row = 1, col = 1, rowspan = 1, colspan = 1\<rparr>)]"
      "''a''" "\<lparr>chunk_id = ''t1'', row = 0, col = 0, rowspan = 2, colspan = 1\<rparr>" 1 0]
  by (simp add: occupies_def overlap_def cell_content_def str_int_def digit_def)

text \<open>
  The claim C3 as stated fails: a single cell at \<open>(0, 0)\<close> with a rowspan of 2
  occupies \<open>(1, 0)\<close>, but the frame has the one row 0 and holds nothing at \<open>(1, 0)\<close>.
\<close>

theorem occupied_lookup_counterexample:
  "occupies \<lparr>chunk_id = ''t1'', row = 0, col = 0, rowspan = 2, colspan = 1\<rparr> (1, 0)
   \<and> map_sum id (map_option (\<lambda>df. (df_index df, df_loc df (0, 0), df_loc df (1, 0))))
       (extract_table_to_dataframe
          \<lparr>chunks = [\<lparr>ctype = ''table'', cid = ''t1'', markdown = '''',
               cgrounding = \<lparr>gtype = ''table'', page = 0,
                 box = \<lparr>box_left = 0.125, box_top = 0.125, box_right = 0.875, box_bottom = 0.875\<rparr>,
                 position = None\<rparr>\<rparr>],
           groundings =
             [(''a'', \<lparr>gtype = ''tableCell'', page = 0,
                 box = \<lparr>box_left = 0.125, box_top = 0.125, box_right = 0.875, box_bottom = 0.875\<rparr>,
                 position = Some \<lparr>chunk_id = ''t1'', row = 0, col = 0, rowspan = 2, colspan = 1\<rparr>\<rparr>)]\<rparr>)
     = Inr (Some ([0], Some ''Cell R0C0'', None))"
  by (simp add: extract_table_to_dataframe_def table_chunks_def cells_of_chunk_def
      build_dataframe_def fill_cells_def fill_cell_apply occupies_def
      cell_content_def str_int_def digit_def upto.simps)

section \<open>Lookups\<close>

text \<open>
  C8, as the code has it. In a document with at least one table, an index at or
  beyond the number of tables makes \<^verbatim>\<open>get_pdf_cell\<close> raise the error that carries the
  index asked for and the number of tables. In a document with no table the first test
  raises before the index is looked at, and that error carries neither.
\<close>

theorem table_index_out_of_range:
  assumes "table_index \<ge> int (length (table_chunks r))"
  shows "get_pdf_cell r row' col' table_index =
     (if table_chunks r = [] then Inl (ValueError No_tables_found)
      else Inl (ValueError (Table_index_out_of_range table_index (length (table_chunks r)))))"
  using assms by (simp add: get_pdf_cell_def Let_def)

theorem table_index_out_of_range_witness:
  "get_pdf_cell
     \<lparr>chunks =
        [\<lparr>ctype = ''table'', cid = ''t1'', markdown = ''<table><tr><td>A</td></tr></table>'',
          cgrounding = \<lparr>gtype = ''table'', page = 0,
            box = \<lparr>box_left = 0.125, box_top = 0.125, box_right = 0.875, box_bottom = 0.375\<rparr>,
            position = None\<rparr>\<rparr>,
         \<lparr>ctype = ''text'', cid = ''x1'', markdown = ''Between the tables'',
          cgrounding = \<lparr>gtype = ''text'', page = 0,
            box = \<lparr>box_left = 0.125, box_top = 0.375, box_right = 0.875, box_bottom = 0.5\<rparr>,
            position = None\<rparr>\<rparr>,
         \<lparr>ctype = ''table'', cid = ''t2'', markdown = ''<table><tr><td>B</td></tr></table>'',
          cgrounding = \<lparr>gtype = ''table'', page = 0,
            box = \<lparr>box_left = 0.125, box_top = 0.5, box_right = 0.875, box_bottom = 0.875\<rparr>,
            position = None\<rparr>\<rparr>],
      groundings = []\<rparr> 0 0 5
   = Inl (ValueError (Table_index_out_of_range 5 2))"
  using table_index_out_of_range
    [of "\<lparr>chunks =
        [\<lparr>ctype = ''table'', cid = ''t1'', markdown = ''<table><tr><td>A</td></tr></table>'',
          cgrounding = \<lparr>gtype = ''table'', page = 0,
            box = \<lparr>box_left = 0.125, box_top = 0.125, box_right = 0.875, box_bottom = 0.375\<rparr>,
            position = None\<rparr>\<rparr>,
         \<lparr>ctype = ''text'', cid = ''x1'', markdown = ''Between the tables'',
          cgrounding = \<lparr>gtype = ''text'', page = 0,
            box = \<lparr>box_left = 0.125, box_top = 0.375, box_right = 0.875, box_bottom = 0.5\<rparr>,
            position = None\<rparr>\<rparr>,
         \<lparr>ctype = ''table'', cid = ''t2'', markdown = ''<table><tr><td>B</td></tr></table>'',
          cgrounding = \<lparr>gtype = ''table'', page = 0,
            box = \<lparr>box_left = 0.125, box_top = 0.5, box_right = 0.875, box_bottom = 0.875\<rparr>,
            position = None\<rparr>\<rparr>],
      groundings = []\<rparr>" 5 0 0]
  by (simp add: table_chunks_def)

text \<open>
  The claim C8 as stated fails: index 0 is out of range in a document with no tables,
  and the error raised there is the one for a document without tables.
\<close>

theorem table_index_counterexample:
  "(0::int) \<ge> int (length (table_chunks
       \<lparr>chunks =
          [\<lparr>ctype = ''text'', cid = ''x1'', markdown = ''No table here'',
            cgrounding = \<lparr>gtype = ''text'', page = 0,
              box = \<lparr>box_left = 0.125, box_top = 0.375, box_right = 0.875, box_bottom = 0.5\<rparr>,
              position = None\<rparr>\<rparr>],
        groundings = []\<rparr>))
   \<and> get_pdf_cell
       \<lparr>chunks =
          [\<lparr>ctype = ''text'', cid = ''x1'', markdown = ''No table here'',
            cgrounding = \<lparr>gtype = ''text'', page = 0,
              box = \<lparr>box_left = 0.125, box_top = 0.375, box_right = 0.875, box_bottom = 0.5\<rparr>,
              position = None\<rparr>\<rparr>],
        groundings = []\<rparr> 0 0 0
     = Inl (ValueError No_tables_found)"
  by (simp add: get_pdf_cell_def table_chunks_def)

lemma fold_update_keys:
  "fst ` set (fold (\<lambda>(i, inner). AList.update i (f inner)) xs acc) = fst ` set xs \<union> fst ` set acc"
proof (induction xs arbitrary: acc)
  case Nil
  show ?case by simp
next
  case (Cons x xs)
  obtain i inner where x: "x = (i, inner)" by (cases x)
  show ?case
    by (simp add: x Cons.IH AList.dom_update Un_assoc [symmetric])
qed

lemma cell_text_of_None:
  "map_of (cell_text_of cells_in table) cell_id = None \<longleftrightarrow>
     cell_id \<notin> fst ` set (cells_in (markdown table))"
  by (simp add: cell_text_of_def map_of_eq_None_iff fold_update_keys)

lemma search_tables_None:
  "search_tables cells_in tables cell_id = None \<longleftrightarrow>
     (\<forall>table \<in> set tables. cell_id \<notin> fst ` set (cells_in (markdown table)))"
proof (induction tables)
  case Nil
  show ?case by simp
next
  case (Cons table tables)
  show ?case
  proof (cases "map_of (cell_text_of cells_in table) cell_id")
    case None
    then show ?thesis
      using Cons.IH cell_text_of_None [of cells_in table cell_id] by simp
  next
    case (Some v)
    then show ?thesis
      using cell_text_of_None [of cells_in table cell_id] by simp
  qed
qed

lemma take_is_all: "take n xs = xs \<longleftrightarrow> length xs \<le> n"
proof
  assume "take n xs = xs"
  then have "length (take n xs) = length xs" by simp
  then show "length xs \<le> n" by simp
next
  assume "length xs \<le> n"
  then show "take n xs = xs" by simp
qed

text \<open>
  C9, as the code has it. When the document has a table and no table holds a cell
  with the identifier, \<^verbatim>\<open>get_spreadsheet_cell\<close> raises the error that lists the
  first ten identifiers found, in the order of the document. The list has at most ten
  entries, and it is the full list exactly when at most ten identifiers are known.
\<close>

theorem cell_not_found_sample:
  assumes "table_chunks r \<noteq> []"
    and "\<forall>table \<in> set (table_chunks r). cell_id \<notin> fst ` set (cells_in (markdown table))"
  shows "get_spreadsheet_cell cells_in ids_in r cell_id =
       Inl (KeyError (Cell_not_found cell_id (take 10 (available_ids ids_in (table_chunks r)))))
     \<and> length (take 10 (available_ids ids_in (table_chunks r))) \<le> 10
     \<and> (take 10 (available_ids ids_in (table_chunks r)) = available_ids ids_in (table_chunks r)
          \<longleftrightarrow> length (available_ids ids_in (table_chunks r)) \<le> 10)"
proof (intro conjI)
  have "search_tables cells_in (table_chunks r) cell_id = None"
    using assms(2) by (simp only: search_tables_None)
  then show "get_spreadsheet_cell cells_in ids_in r cell_id =
       Inl (KeyError (Cell_not_found cell_id (take 10 (available_ids ids_in (table_chunks r)))))"
    using assms(1) by (simp add: get_spreadsheet_cell_def)
  show "length (take 10 (available_ids ids_in (table_chunks r))) \<le> 10"
    by simp
  show "take 10 (available_ids ids_in (table_chunks r)) = available_ids ids_in (table_chunks r)
          \<longleftrightarrow> length (available_ids ids_in (table_chunks r)) \<le> 10"
    by (rule take_is_all)
qed

theorem cell_not_found_sample_witness:
  "get_spreadsheet_cell
     (\<lambda>md. if md = ''<td id=\"A1\">1</td><td id=\"A2\">2</td><td id=\"A3\">3</td><td id=\"A4\">4</td><td id=\"A5\">5</td><td id=\"A6\">6</td><td id=\"A7\">7</td><td id=\"A8\">8</td><td id=\"A9\">9</td><td id=\"A10\">10</td><td id=\"A11\">11</td>''
            then [(''A1'', ''1''), (''A2'', ''2''), (''A3'', ''3''), (''A4'', ''4''), (''A5'', ''5''),
                  (''A6'', ''6''), (''A7'', ''7''), (''A8'', ''8''), (''A9'', ''9''), (''A10'', ''10''),
                  (''A11'', ''11'')]
            else [])
     (\<lambda>md. if md = ''<td id=\"A1\">1</td><td id=\"A2\">2</td><td id=\"A3\">3</td><td id=\"A4\">4</td><td id=\"A5\">5</td><td id=\"A6\">6</td><td id=\"A7\">7</td><td id=\"A8\">8</td><td id=\"A9\">9</td><td id=\"A10\">10</td><td id=\"A11\">11</td>''
            then [''A1'', ''A2'', ''A3'', ''A4'', ''A5'', ''A6'', ''A7'', ''A8'', ''A9'', ''A10'', ''A11'']
            else [])
     \<lparr>chunks =
        [\<lparr>ctype = ''table'', cid = ''t1'',
          markdown = ''<td id=\"A1\">1</td><td id=\"A2\">2</td><td id=\"A3\">3</td><td id=\"A4\">4</td><td id=\"A5\">5</td><td id=\"A6\">6</td><td id=\"A7\">7</td><td id=\"A8\">8</td><td id=\"A9\">9</td><td id=\"A10\">10</td><td id=\"A11\">11</td>'',
          cgrounding = \<lparr>gtype = ''table'', page = 0,
            box = \<lparr>box_left = 0.125, box_top = 0.125, box_right = 0.875, box_bottom = 0.375\<rparr>,
            position = None\<rparr>\<rparr>],
      groundings = []\<rparr>
     ''B2''
   = Inl (KeyError (Cell_not_found ''B2''
       [''A1'', ''A2'', ''A3'', ''A4'', ''A5'', ''A6'', ''A7'', ''A8'', ''A9'', ''A10'']))"
  using cell_not_found_sample
    [of "\<lparr>chunks =
        [\<lparr>ctype = ''table'', cid = ''t1'',
          markdown = ''<td id=\"A1\">1</td><td id=\"A2\">2</td><td id=\"A3\">3</td><td id=\"A4\">4</td><td id=\"A5\">5</td><td id=\"A6\">6</td><td id=\"A7\">7</td><td id=\"A8\">8</td><td id=\"A9\">9</td><td id=\"A10\">10</td><td id=\"A11\">11</td>'',
          cgrounding = \<lparr>gtype = ''table'', page = 0,
            box = \<lparr>box_left = 0.125, box_top = 0.125, box_right = 0.875, box_bottom = 0.375\<rparr>,
            position = None\<rparr>\<rparr>],
      groundings = []\<rparr>"
      "''B2''"
      "(\<lambda>md. if md = ''<td id=\"A1\">1</td><td id=\"A2\">2</td><td id=\"A3\">3</td><td id=\"A4\">4</td><td id=\"A5\">5</td><td id=\"A6\">6</td><td id=\"A7\">7</td><td id=\"A8\">8</td><td id=\"A9\">9</td><td id=\"A10\">10</td><td id=\"A11\">11</td>''
            then [(''A1'', ''1''), (''A2'', ''2''), (''A3'', ''3''), (''A4'', ''4''), (''A5'', ''5''),
                  (''A6'', ''6''), (''A7'', ''7''), (''A8'', ''8''), (''A9'', ''9''), (''A10'', ''10''),
                  (''A11'', ''11'')]
            else [])"
      "(\<lambda>md. if md = ''<td id=\"A1\">1</td><td id=\"A2\">2</td><td id=\"A3\">3</td><td id=\"A4\">4</td><td id=\"A5\">5</td><td id=\"A6\">6</td><td id=\"A7\">7</td><td id=\"A8\">8</td><td id=\"A9\">9</td><td id=\"A10\">10</td><td id=\"A11\">11</td>''
            then [''A1'', ''A2'', ''A3'', ''A4'', ''A5'', ''A6'', ''A7'', ''A8'', ''A9'', ''A10'', ''A11'']
            else [])"]
  by (simp add: table_chunks_def available_ids_def)

text \<open>
  The claim C9 as stated fails: in a table with the one identifier \<open>A1\<close>, a lookup of
  \<open>B2\<close> raises an error whose list is the full list of known identifiers.
\<close>

theorem cell_not_found_counterexample:
  "get_spreadsheet_cell
     (\<lambda>md. if md = ''<table><tr><td id=\"A1\">x</td></tr></table>'' then [(''A1'', ''x'')] else [])
     (\<lambda>md. if md = ''<table><tr><td id=\"A1\">x</td></tr></table>'' then [''A1''] else [])
     \<lparr>chunks =
        [\<lparr>ctype = ''table'', cid = ''t1'',
          markdown = ''<table><tr><td id=\"A1\">x</td></tr></table>'',
          cgrounding = \<lparr>gtype = ''table'', page = 0,
            box = \<lparr>box_left = 0.125, box_top = 0.125, box_right = 0.875, box_bottom = 0.375\<rparr>,
            position = None\<rparr>\<rparr>],
      groundings = []\<rparr>
     ''B2''
   = Inl (KeyError (Cell_not_found ''B2'' [''A1'']))
   \<and> available_ids
       (\<lambda>md. if md = ''<table><tr><td id=\"A1\">x</td></tr></table>'' then [''A1''] else [])
       [\<lparr>ctype = ''table'', cid = ''t1'',
          markdown = ''<table><tr><td id=\"A1\">x</td></tr></table>'',
          cgrounding = \<lparr>gtype = ''table'', page = 0,
            box = \<lparr>box_left = 0.125, box_top = 0.125, box_right = 0.875, box_bottom = 0.375\<rparr>,
            position = None\<rparr>\<rparr>]
     = [''A1'']"
  by (simp add: get_spreadsheet_cell_def table_chunks_def available_ids_def cell_text_of_def
      strip_tags.simps)

subsection \<open>The grid of \<^verbatim>\<open>get_pdf_cell\<close>\<close>















section \<open>The markdown table\<close>

lemma set_update_cases: "e \<in> set (AList.update k v al) \<Longrightarrow> e = (k, v) \<or> e \<in> set al"
  by (induction al) (auto split: if_splits)

lemma store_cell_body:
  assumes "\<forall>e \<in> set acc. \<exists>pos. cell_body (snd e) = md_content pos"
    and "e \<in> set (store_cell table_chunk g acc)"
  shows "\<exists>pos. cell_body (snd e) = md_content pos"
proof (cases "position (snd g)")
  case None
  then show ?thesis
    using assms by (simp add: store_cell_def)
next
  case (Some pos)
  show ?thesis
  proof (cases "gtype (snd g) = ''tableCell'' \<and> chunk_id pos = cid table_chunk")
    case True
    then have "e = ((row pos, col pos),
        \<lparr>cell_gid = fst g, cell_rowspan = rowspan pos, cell_colspan = colspan pos,
         cell_body = md_content pos\<rparr>) \<or> e \<in> set acc"
      using assms(2) Some by (auto simp: store_cell_def dest: set_update_cases)
    then show ?thesis
      using assms(1) by auto
  next
    case False
    then show ?thesis
      using assms Some by (auto simp: store_cell_def)
  qed
qed

lemma fold_store_cell_body:
  "\<forall>e \<in> set acc. \<exists>pos. cell_body (snd e) = md_content pos \<Longrightarrow>
   \<forall>e \<in> set (fold (store_cell table_chunk) gs acc). \<exists>pos. cell_body (snd e) = md_content pos"
proof (induction gs arbitrary: acc)
  case Nil
  then show ?case by simp
next
  case (Cons g gs)
  have "\<forall>e \<in> set (store_cell table_chunk g acc). \<exists>pos. cell_body (snd e) = md_content pos"
    using Cons.prems store_cell_body by blast
  then show ?case
    using Cons.IH by simp
qed

lemma build_cells_data_body:
  "e \<in> set (build_cells_data table_chunk gs) \<Longrightarrow> \<exists>pos. cell_body (snd e) = md_content pos"
  using fold_store_cell_body [of "[]" table_chunk gs] by (simp add: build_cells_data_def)

lemma anchor_text_hd:
  "cell_body cell = md_content pos \<Longrightarrow> anchor_text cell \<noteq> [] \<and> hd (anchor_text cell) = CHR ''C''"
  by (simp add: anchor_text_def md_content_def)

lemma covered_iff:
  "covered cells_data r c \<longleftrightarrow>
     (\<exists>e \<in> set cells_data.
        (fst (fst e) \<le> r \<and> r < fst (fst e) + cell_rowspan (snd e)) \<and>
        (snd (fst e) \<le> c \<and> c < snd (fst e) + cell_colspan (snd e)) \<and>
        (fst (fst e) \<noteq> r \<or> snd (fst e) \<noteq> c))"
  by (induction cells_data r c rule: covered.induct) auto

lemma cell_text_placeholder:
  assumes "map_of cells_data (r, c) = None"
    and "e \<in> set cells_data"
    and "fst (fst e) \<le> r \<and> r < fst (fst e) + cell_rowspan (snd e)"
    and "snd (fst e) \<le> c \<and> c < snd (fst e) + cell_colspan (snd e)"
  shows "cell_text cells_data r c = ''^^''"
proof -
  have "fst e \<noteq> (r, c)"
    using assms(1,2) by (force simp: map_of_eq_None_iff)
  then have "fst (fst e) \<noteq> r \<or> snd (fst e) \<noteq> c"
    by (cases e) auto
  then have "covered cells_data r c"
    using assms(2,3,4) by (auto simp: covered_iff)
  then show ?thesis
    using assms(1) by (simp add: cell_text_def)
qed

lemma row_cells_nth:
  "0 \<le> c \<Longrightarrow> c \<le> max_col \<Longrightarrow> row_cells cells_data max_col r ! nat c = cell_text cells_data r c"
  by (simp add: row_cells_def)

lemma cell_text_first:
  assumes "\<forall>e \<in> set cells_data. \<exists>pos. cell_body (snd e) = md_content pos"
  shows "cell_text cells_data r c = [] \<or> hd (cell_text cells_data r c) \<noteq> CHR ''-''"
proof (cases "map_of cells_data (r, c)")
  case None
  then show ?thesis by (simp add: cell_text_def)
next
  case (Some cell)
  then have "((r, c), cell) \<in> set cells_data"
    by (rule map_of_SomeD)
  then obtain pos where "cell_body cell = md_content pos"
    using assms by fastforce
  then show ?thesis
    using Some anchor_text_hd [of cell pos] by (simp add: cell_text_def)
qed


lemma row_line_third:
  assumes "cells = [] \<or> hd cells = [] \<or> hd (hd cells) \<noteq> CHR ''-''"
  shows "4 \<le> length (row_line cells) \<and> row_line cells ! 2 \<noteq> CHR ''-''"
proof (cases cells)
  case Nil
  then show ?thesis by (simp add: row_line_def)
next
  case (Cons x ys)
  show ?thesis
  proof (cases x)
    case Nil
    with Cons show ?thesis
      by (cases ys) (simp_all add: row_line_def)
  next
    case (Cons ch x')
    with \<open>cells = x # ys\<close> assms show ?thesis
      by (cases ys) (simp_all add: row_line_def)
  qed
qed

lemma separator_shape:
  "separator max_col = ''||'' \<or> (3 \<le> length (separator max_col) \<and> separator max_col ! 2 = CHR ''-'')"
proof (cases "0 \<le> max_col")
  case True
  then have "[0..max_col] = 0 # [1..max_col]"
    by (simp add: upto_rec1)
  then show ?thesis
    by (cases "[1..max_col]") (simp_all add: separator_def)
next
  case False
  then show ?thesis by (simp add: separator_def)
qed

lemma row_line_not_separator:
  assumes "\<forall>e \<in> set cells_data. \<exists>pos. cell_body (snd e) = md_content pos"
  shows "row_line (row_cells cells_data max_col r) \<noteq> separator max_col"
proof -
  have "row_cells cells_data max_col r = []
      \<or> hd (row_cells cells_data max_col r) = []
      \<or> hd (hd (row_cells cells_data max_col r)) \<noteq> CHR ''-''"
  proof (cases "0 \<le> max_col")
    case True
    then have "[0..max_col] = 0 # [1..max_col]"
      by (simp add: upto_rec1)
    then have "hd (row_cells cells_data max_col r) = cell_text cells_data r 0"
      by (simp add: row_cells_def)
    then show ?thesis
      using cell_text_first [OF assms, of r 0] by auto
  next
    case False
    then show ?thesis by (simp add: row_cells_def)
  qed
  then have "4 \<le> length (row_line (row_cells cells_data max_col r))
      \<and> row_line (row_cells cells_data max_col r) ! 2 \<noteq> CHR ''-''"
    by (rule row_line_third)
  then show ?thesis
    using separator_shape [of max_col] by auto
qed

lemma markdown_lines_shape:
  assumes "0 \<le> max_row"
  shows "markdown_lines cells_data max_row max_col =
     row_line (row_cells cells_data max_col 0) # separator max_col
     # map (\<lambda>r. row_line (row_cells cells_data max_col r)) [1..max_row]"
proof -
  have "concat (map (lines_of_row cells_data max_col) rs) =
      map (\<lambda>r. row_line (row_cells cells_data max_col r)) rs" if "0 \<notin> set rs" for rs
    using that by (induction rs) (auto simp: lines_of_row_def)
  then have "concat (map (lines_of_row cells_data max_col) [1..max_row]) =
      map (\<lambda>r. row_line (row_cells cells_data max_col r)) [1..max_row]"
    by simp
  moreover have "[0..max_row] = 0 # [1..max_row]"
    using assms by (simp add: upto_rec1)
  ultimately show ?thesis
    by (simp add: markdown_lines_def lines_of_row_def)
qed

lemma one_separator:
  assumes "\<forall>r. f r \<noteq> sep"
  shows "filter (\<lambda>l. l = sep) (f r0 # sep # map f rs) = [sep]"
proof -
  have "filter (\<lambda>l. l = sep) (map f rs) = []"
    using assms by (induction rs) auto
  then show ?thesis
    using assms by simp
qed


text \<open>
  C4, as the code has it. \<^verbatim>\<open>reconstruct_table_markdown\<close> renders the rows from 0
  to the largest anchor row and the columns from 0 to the largest anchor column. The
  first line is row 0, the second is the separator, the others are the rows from 1 on,
  and no row line is equal to the separator, so there is exactly one. Within these
  rows and columns, a position that is not an anchor and lies in the span of a cell
  is rendered as \<open>^^\<close>, which is neither the text nor the content of any anchor.
  Anchor rows are not negative.
\<close>

theorem markdown_placeholder_and_separator:
  assumes "cells_data = build_cells_data table_chunk gs"
    and "cells_data \<noteq> []"
    and "\<forall>e \<in> set cells_data. 0 \<le> fst (fst e)"
    and "max_row = Max ((\<lambda>e. fst (fst e)) ` set cells_data)"
    and "max_col = Max ((\<lambda>e. snd (fst e)) ` set cells_data)"
  shows "(\<exists>ls. render_cells_data cells_data = Inr ls
        \<and> ls = row_line (row_cells cells_data max_col 0) # separator max_col
               # map (\<lambda>r. row_line (row_cells cells_data max_col r)) [1..max_row]
        \<and> filter (\<lambda>l. l = separator max_col) ls = [separator max_col])
    \<and> (\<forall>e \<in> set cells_data. anchor_text (snd e) \<noteq> ''^^'' \<and> cell_body (snd e) \<noteq> ''^^'')
    \<and> (\<forall>e \<in> set cells_data. \<forall>r c.
          (0 \<le> r \<and> r \<le> max_row) \<and> (0 \<le> c \<and> c \<le> max_col) \<and>
          map_of cells_data (r, c) = None \<and>
          (fst (fst e) \<le> r \<and> r < fst (fst e) + cell_rowspan (snd e)) \<and>
          (snd (fst e) \<le> c \<and> c < snd (fst e) + cell_colspan (snd e))
          \<longrightarrow> row_cells cells_data max_col r ! nat c = ''^^'')"
proof (intro conjI)
  have body: "\<forall>e \<in> set cells_data. \<exists>pos. cell_body (snd e) = md_content pos"
    using assms(1) build_cells_data_body by blast
  have "max_row \<in> (\<lambda>e. fst (fst e)) ` set cells_data"
    unfolding assms(4) using assms(2) by (intro Max_in) auto
  then have nonneg: "0 \<le> max_row"
    using assms(3) by auto
  have sep: "\<forall>r. row_line (row_cells cells_data max_col r) \<noteq> separator max_col"
    using row_line_not_separator [OF body] by blast
  have "render_cells_data cells_data = Inr (markdown_lines cells_data max_row max_col)"
    using assms(2) by (simp add: render_cells_data_eq assms(4,5))
  then have "render_cells_data cells_data =
      Inr (row_line (row_cells cells_data max_col 0) # separator max_col
           # map (\<lambda>r. row_line (row_cells cells_data max_col r)) [1..max_row])"
    by (simp only: markdown_lines_shape [OF nonneg])
  moreover have "filter (\<lambda>l. l = separator max_col)
      (row_line (row_cells cells_data max_col 0) # separator max_col
           # map (\<lambda>r. row_line (row_cells cells_data max_col r)) [1..max_row]) = [separator max_col]"
    using sep by (rule one_separator)
  ultimately show "\<exists>ls. render_cells_data cells_data = Inr ls
        \<and> ls = row_line (row_cells cells_data max_col 0) # separator max_col
               # map (\<lambda>r. row_line (row_cells cells_data max_col r)) [1..max_row]
        \<and> filter (\<lambda>l. l = separator max_col) ls = [separator max_col]"
    by blast
  show "\<forall>e \<in> set cells_data. anchor_text (snd e) \<noteq> ''^^'' \<and> cell_body (snd e) \<noteq> ''^^''"
  proof
    fix e assume "e \<in> set cells_data"
    then obtain pos where p: "cell_body (snd e) = md_content pos"
      using body by blast
    have "hd (anchor_text (snd e)) = CHR ''C''"
      using anchor_text_hd [OF p] by simp
    then have "anchor_text (snd e) \<noteq> ''^^''"
      by auto
    moreover have "cell_body (snd e) \<noteq> ''^^''"
      by (simp add: p md_content_def)
    ultimately show "anchor_text (snd e) \<noteq> ''^^'' \<and> cell_body (snd e) \<noteq> ''^^''"
      by simp
  qed
  show "\<forall>e \<in> set cells_data. \<forall>r c.
          (0 \<le> r \<and> r \<le> max_row) \<and> (0 \<le> c \<and> c \<le> max_col) \<and>
          map_of cells_data (r, c) = None \<and>
          (fst (fst e) \<le> r \<and> r < fst (fst e) + cell_rowspan (snd e)) \<and>
          (snd (fst e) \<le> c \<and> c < snd (fst e) + cell_colspan (snd e))
          \<longrightarrow> row_cells cells_data max_col r ! nat c = ''^^''"
    by (auto simp: row_cells_nth cell_text_placeholder)
qed


lemma example_cells_data:
  "build_cells_data
     \<lparr>ctype = ''table'', cid = ''t1'', markdown = ''<table></table>'',
      cgrounding = \<lparr>gtype = ''table'', page = 0,
        box = \<lparr>box_left = 0.125, box_top = 0.125, box_right = 0.875, box_bottom = 0.875\<rparr>,
        position = None\<rparr>\<rparr>
     [(''a'', \<lparr>gtype = ''tableCell'', page = 0,
         box = \<lparr>box_left = 0.125, box_top = 0.125, box_right = 0.875, box_bottom = 0.5\<rparr>,
         position = Some \<lparr>chunk_id = ''t1'', row = 0, col = 0, rowspan = 1, colspan = 2\<rparr>\<rparr>),
      (''b'', \<lparr>gtype = ''tableCell'', page = 0,
         box = \<lparr>box_left = 0.125, box_top = 0.5, box_right = 0.5, box_bottom = 0.875\<rparr>,
         position = Some \<lparr>chunk_id = ''t1'', row = 1, col = 0, rowspan = 1, colspan = 1\<rparr>\<rparr>),
      (''c'', \<lparr>gtype = ''tableCell'', page = 0,
         box = \<lparr>box_left = 0.5, box_top = 0.5, box_right = 0.875, box_bottom = 0.875\<rparr>,
         position = Some \<lparr>chunk_id = ''t1'', row = 1, col = 1, rowspan = 1, colspan = 1\<rparr>\<rparr>)]
   = [((0, 0), \<lparr>cell_gid = ''a'', cell_rowspan = 1, cell_colspan = 2, cell_body = ''Cell00''\<rparr>),
      ((1, 0), \<lparr>cell_gid = ''b'', cell_rowspan = 1, cell_colspan = 1, cell_body = ''Cell10''\<rparr>),
      ((1, 1), \<lparr>cell_gid = ''c'', cell_rowspan = 1, cell_colspan = 1, cell_body = ''Cell11''\<rparr>)]"
  by (simp add: build_cells_data_def store_cell_def md_content_def str_int_def digit_def)

theorem markdown_placeholder_and_separator_witness:
  "render_cells_data
     [((0, 0), \<lparr>cell_gid = ''a'', cell_rowspan = 1, cell_colspan = 2, cell_body = ''Cell00''\<rparr>),
      ((1, 0), \<lparr>cell_gid = ''b'', cell_rowspan = 1, cell_colspan = 1, cell_body = ''Cell10''\<rparr>),
      ((1, 1), \<lparr>cell_gid = ''c'', cell_rowspan = 1, cell_colspan = 1, cell_body = ''Cell11''\<rparr>)]
   = Inr [''| Cell00 (spans 2 cols) | ^^ |'', ''| --- | --- |'', ''| Cell10 | Cell11 |'']"
proof -
  have rows: "[1..(1::int)] = [1]" and cols: "[0..(1::int)] = [0, 1]"
    by (simp_all add: upto.simps)
  show ?thesis
    using markdown_placeholder_and_separator
      [OF example_cells_data [symmetric], of 1 1]
    by (simp add: row_cells_def cell_text_def anchor_text_def row_line_def separator_def
        str_int_def digit_def rows cols)
qed

text \<open>
  The claim C4 as stated fails: with one cell at \<open>(0, 0)\<close> and a rowspan of 2, position
  \<open>(1, 0)\<close> is covered and is not an anchor, and the table has the line of row 0 and
  the separator only: nothing is emitted for \<open>(1, 0)\<close>.
\<close>

theorem markdown_placeholder_counterexample:
  "reconstruct_table_markdown
     \<lparr>chunks = [\<lparr>ctype = ''table'', cid = ''t1'', markdown = ''<table></table>'',
          cgrounding = \<lparr>gtype = ''table'', page = 0,
            box = \<lparr>box_left = 0.125, box_top = 0.125, box_right = 0.875, box_bottom = 0.875\<rparr>,
            position = None\<rparr>\<rparr>],
      groundings =
        [(''a'', \<lparr>gtype = ''tableCell'', page = 0,
            box = \<lparr>box_left = 0.125, box_top = 0.125, box_right = 0.875, box_bottom = 0.875\<rparr>,
            position = Some \<lparr>chunk_id = ''t1'', row = 0, col = 0, rowspan = 2, colspan = 1\<rparr>\<rparr>)]\<rparr>
   = Inr (Some (''| Cell00 (spans 2 rows) |'' @ [CHR 0x0A] @ ''| --- |''))
   \<and> covered
       [((0, 0), \<lparr>cell_gid = ''a'', cell_rowspan = 2, cell_colspan = 1, cell_body = ''Cell00''\<rparr>)] 1 0
   \<and> map_of
       [((0, 0), \<lparr>cell_gid = ''a'', cell_rowspan = 2, cell_colspan = 1, cell_body = ''Cell00''\<rparr>)]
       (1::int, 0::int) = None"
  by (simp add: reconstruct_table_markdown_def table_chunks_def build_cells_data_def
      store_cell_def md_content_def str_int_def digit_def render_cells_data_def
      markdown_lines_def lines_of_row_def row_cells_def cell_text_def anchor_text_def
      row_line_def separator_def upto.simps)

end
